theory Spec2Isabelle
  imports Complex_Main
begin

section \<open>Python strings and values\<close>

text \<open>
  The embedding follows \<^verbatim>\<open>src/sqlite_web/sqlite_web.py\<close>. A Python \<^verbatim>\<open>str\<close> is a
  \<^typ>\<open>string\<close> whose characters are the code points 0 to 255. An exception is
  represented by its message (what \<^verbatim>\<open>str(exc)\<close> gives), and a call that may raise returns
  \<open>exn + 'a\<close> with \<open>Inl\<close> for the exception.
\<close>

type_synonym exn = string

text \<open>
  The string methods the handlers use, on code points 0 to 255. \<^verbatim>\<open>str.lower\<close> maps the
  upper-case letters of ASCII and of Latin-1 to their lower-case forms; \<^verbatim>\<open>str.strip\<close>
  removes the white space of \<^verbatim>\<open>str.isspace\<close> at both ends; \<^verbatim>\<open>str.isdigit\<close> holds of a
  non-empty string of digits, where the superscripts one, two and three count as digits.
\<close>

definition upper_case :: string where
  "upper_case = ''ABCDEFGHIJKLMNOPQRSTUVWXYZ'' @
     [CHR 0xC0, CHR 0xC1, CHR 0xC2, CHR 0xC3, CHR 0xC4, CHR 0xC5, CHR 0xC6, CHR 0xC7,
      CHR 0xC8, CHR 0xC9, CHR 0xCA, CHR 0xCB, CHR 0xCC, CHR 0xCD, CHR 0xCE, CHR 0xCF,
      CHR 0xD0, CHR 0xD1, CHR 0xD2, CHR 0xD3, CHR 0xD4, CHR 0xD5, CHR 0xD6, CHR 0xD8,
      CHR 0xD9, CHR 0xDA, CHR 0xDB, CHR 0xDC, CHR 0xDD, CHR 0xDE]"

definition lower_case :: string where
  "lower_case = ''abcdefghijklmnopqrstuvwxyz'' @
     [CHR 0xE0, CHR 0xE1, CHR 0xE2, CHR 0xE3, CHR 0xE4, CHR 0xE5, CHR 0xE6, CHR 0xE7,
      CHR 0xE8, CHR 0xE9, CHR 0xEA, CHR 0xEB, CHR 0xEC, CHR 0xED, CHR 0xEE, CHR 0xEF,
      CHR 0xF0, CHR 0xF1, CHR 0xF2, CHR 0xF3, CHR 0xF4, CHR 0xF5, CHR 0xF6, CHR 0xF8,
      CHR 0xF9, CHR 0xFA, CHR 0xFB, CHR 0xFC, CHR 0xFD, CHR 0xFE]"

definition py_lower_char :: "char \<Rightarrow> char" where
  "py_lower_char c = (case map_of (zip upper_case lower_case) c of None \<Rightarrow> c | Some l \<Rightarrow> l)"

definition py_lower :: "string \<Rightarrow> string" where
  "py_lower s = map py_lower_char s"

definition py_isspace :: "char \<Rightarrow> bool" where
  "py_isspace c =
     (let n = (of_char c :: nat)
      in (9 \<le> n \<and> n \<le> 13) \<or> (28 \<le> n \<and> n \<le> 32) \<or> n = 133 \<or> n = 160)"

definition py_strip :: "string \<Rightarrow> string" where
  "py_strip s = rev (dropWhile py_isspace (rev (dropWhile py_isspace s)))"

definition ascii_digit :: "char \<Rightarrow> bool" where
  "ascii_digit c = (let n = (of_char c :: nat) in 48 \<le> n \<and> n \<le> 57)"

definition py_isdigit_char :: "char \<Rightarrow> bool" where
  "py_isdigit_char c =
     (let n = (of_char c :: nat) in ascii_digit c \<or> n = 178 \<or> n = 179 \<or> n = 185)"

definition py_isdigit :: "string \<Rightarrow> bool" where
  "py_isdigit s = (s \<noteq> [] \<and> list_all py_isdigit_char s)"

text \<open>
  \<^verbatim>\<open>int(s)\<close> on a string that passed \<^verbatim>\<open>isdigit\<close>: the decimal value when every
  character is an ASCII digit, a \<^verbatim>\<open>ValueError\<close> for the superscript digits. The
  interpreter's limit on the length of a numeral (some thousand digits) is not modelled.
\<close>

definition py_int :: "string \<Rightarrow> exn + int" where
  "py_int s =
     (if s \<noteq> [] \<and> list_all ascii_digit s
      then Inr (foldl (\<lambda>n c. 10 * n + (int (of_char c) - 48)) 0 s)
      else Inl (''invalid literal for int() with base 10: '' @ CHR 0x27 # s @ [CHR 0x27]))"

text \<open>\<^verbatim>\<open>str(n)\<close> for an integer.\<close>

fun str_of_nat :: "nat \<Rightarrow> string" where
  "str_of_nat n =
     (if n < 10 then [''0123456789'' ! n]
      else str_of_nat (n div 10) @ [''0123456789'' ! (n mod 10)])"

definition str_of_int :: "int \<Rightarrow> string" where
  "str_of_int i = (if i < 0 then CHR ''-'' # str_of_nat (nat (- i)) else str_of_nat (nat i))"

text \<open>\<^verbatim>\<open>sep.join(parts)\<close>.\<close>

fun py_join :: "string \<Rightarrow> string list \<Rightarrow> string" where
  "py_join sep [] = []"
| "py_join sep [x] = x"
| "py_join sep (x # y # ys) = x @ sep @ py_join sep (y # ys)"

text \<open>
  \<^verbatim>\<open>s.split(sep)\<close> for a non-empty separator: the pieces between the occurrences of the
  separator found from left to right, each search starting after the previous
  occurrence. \<open>split_from sep piece rest\<close> has read \<open>piece\<close> since the last occurrence.
\<close>

function split_from :: "string \<Rightarrow> string \<Rightarrow> string \<Rightarrow> string list" where
  "split_from sep piece [] = [piece]"
| "split_from sep piece (c # cs) =
     (if sep \<noteq> [] \<and> take (length sep) (c # cs) = sep
      then piece # split_from sep [] (drop (length sep) (c # cs))
      else split_from sep (piece @ [c]) cs)"
  by pat_completeness auto
termination
  by (relation "measure (\<lambda>(sep, piece, rest). length rest)") auto

definition py_split :: "string \<Rightarrow> string \<Rightarrow> string list" where
  "py_split s sep = split_from sep [] s"

text \<open>
  The values a row or a validated form field holds. Bytes are a list of characters 0 to
  255. Floating-point values are outside the model.
\<close>

datatype pyval = PyNone | PyBool bool | PyInt int | PyStr string | PyBytes string

text \<open>
  \<^verbatim>\<open>repr\<close> of a string and of a bytes object (\<^verbatim>\<open>str\<close> of a bytes object is its
  \<^verbatim>\<open>repr\<close>). The quote is the double quote when the text holds a single quote and no
  double quote; the quote and the backslash are escaped, tab, line feed and carriage
  return are written with their letters, and the other characters that are not printable
  in hexadecimal. Of a string the printable characters are those outside the control
  ranges, the no-break space and the soft hyphen; of a bytes object the printable ASCII
  characters.
\<close>

definition hex_digit :: "nat \<Rightarrow> char" where
  "hex_digit n = ''0123456789abcdef'' ! (n mod 16)"

definition str_printable :: "char \<Rightarrow> bool" where
  "str_printable c =
     (let n = (of_char c :: nat) in \<not> (n < 32 \<or> (127 \<le> n \<and> n \<le> 160) \<or> n = 173))"

definition bytes_printable :: "char \<Rightarrow> bool" where
  "bytes_printable c = (let n = (of_char c :: nat) in 32 \<le> n \<and> n < 127)"

definition repr_char :: "(char \<Rightarrow> bool) \<Rightarrow> char \<Rightarrow> char \<Rightarrow> string" where
  "repr_char printable quote c =
     (let n = (of_char c :: nat)
      in if c = quote \<or> c = CHR 0x5C then [CHR 0x5C, c]
         else if n = 9 then [CHR 0x5C, CHR ''t'']
         else if n = 10 then [CHR 0x5C, CHR ''n'']
         else if n = 13 then [CHR 0x5C, CHR ''r'']
         else if \<not> printable c then [CHR 0x5C, CHR ''x'', hex_digit (n div 16), hex_digit (n mod 16)]
         else [c])"

definition repr_quote :: "string \<Rightarrow> char" where
  "repr_quote s = (if CHR 0x27 \<in> set s \<and> CHR 0x22 \<notin> set s then CHR 0x22 else CHR 0x27)"

definition py_repr :: "string \<Rightarrow> string" where
  "py_repr s = repr_quote s # concat (map (repr_char str_printable (repr_quote s)) s) @ [repr_quote s]"

definition bytes_repr :: "string \<Rightarrow> string" where
  "bytes_repr bs =
     CHR ''b'' # repr_quote bs # concat (map (repr_char bytes_printable (repr_quote bs)) bs)
       @ [repr_quote bs]"

fun py_str :: "pyval \<Rightarrow> string" where
  "py_str PyNone = ''None''"
| "py_str (PyBool b) = (if b then ''True'' else ''False'')"
| "py_str (PyInt i) = str_of_int i"
| "py_str (PyStr s) = s"
| "py_str (PyBytes bs) = bytes_repr bs"

section \<open>Requests, responses and the data set\<close>

datatype http_method = GET | POST

text \<open>
  \<^verbatim>\<open>request.form\<close> and \<^verbatim>\<open>request.args\<close> are multi-dicts: an ordered list of
  (key, value) pairs. \<^verbatim>\<open>get_request_data()\<close> picks the form on POST and the arguments on
  GET.
\<close>

record request =
  req_method :: http_method
  req_form :: "(string \<times> string) list"
  req_args :: "(string \<times> string) list"

definition get_request_data :: "request \<Rightarrow> (string \<times> string) list" where
  "get_request_data req = (if req_method req = POST then req_form req else req_args req)"

text \<open>\<^verbatim>\<open>data.get(key)\<close>: the first value stored under the key, or \<^verbatim>\<open>None\<close>.\<close>

definition md_get :: "(string \<times> string) list \<Rightarrow> string \<Rightarrow> string option" where
  "md_get d k = map_of d k"

text \<open>\<^verbatim>\<open>data.get(key, "")\<close>.\<close>

definition md_get_str :: "(string \<times> string) list \<Rightarrow> string \<Rightarrow> string" where
  "md_get_str d k = (case map_of d k of None \<Rightarrow> [] | Some v \<Rightarrow> v)"

text \<open>\<^verbatim>\<open>data.getlist(key)\<close>: every value stored under the key, in order.\<close>

definition md_getlist :: "(string \<times> string) list \<Rightarrow> string \<Rightarrow> string list" where
  "md_getlist d k = map snd (filter (\<lambda>kv. fst kv = k) d)"

text \<open>Truthiness of an optional string: \<^verbatim>\<open>None\<close> and \<^verbatim>\<open>""\<close> are false.\<close>

definition truthy :: "string option \<Rightarrow> bool" where
  "truthy v = (case v of None \<Rightarrow> False | Some s \<Rightarrow> s \<noteq> [])"

text \<open>
  The catalog entries the handlers read: \<^verbatim>\<open>ColumnMetadata\<close> and \<^verbatim>\<open>IndexMetadata\<close> of the
  database collaborator.
\<close>

record column_metadata =
  col_name :: string
  col_data_type :: string
  col_null :: bool
  col_primary_key :: bool
  col_default :: "string option"

record index_metadata =
  idx_name :: string
  idx_sql :: string
  idx_columns :: "string list"
  idx_unique :: bool

record table_schema =
  tbl_columns :: "column_metadata list"
  tbl_indexes :: "index_metadata list"

text \<open>
  The data set: the live catalog of the database file, and \<^verbatim>\<open>dataset._models\<close>, the
  per-table structure cached from the last introspection.
\<close>

record dataset =
  ds_database :: "string \<rightharpoonup> table_schema"
  ds_models :: "string \<rightharpoonup> table_schema"

text \<open>
  \<^verbatim>\<open>dataset.get_columns(file, table)\<close> and \<^verbatim>\<open>dataset.get_indexes(file, table)\<close> ask the
  database itself, not the cache. They are only called behind \<^verbatim>\<open>require_table\<close>; for a
  table the database does not have they are given the empty list here.
\<close>

definition get_columns :: "dataset \<Rightarrow> string \<Rightarrow> column_metadata list" where
  "get_columns ds table = (case ds_database ds table of None \<Rightarrow> [] | Some s \<Rightarrow> tbl_columns s)"

definition get_indexes :: "dataset \<Rightarrow> string \<Rightarrow> index_metadata list" where
  "get_indexes ds table = (case ds_database ds table of None \<Rightarrow> [] | Some s \<Rightarrow> tbl_indexes s)"

text \<open>
  Modelled from the spec: \<^verbatim>\<open>DataSet.update_cache(table)\<close> belongs to the database
  collaborator and is not under \<^verbatim>\<open>src/\<close>. The spec has the table's cached metadata
  invalidated and rebuilt from the catalog.
\<close>

definition update_cache :: "string \<Rightarrow> dataset \<Rightarrow> dataset" where
  "update_cache table ds = ds\<lparr>ds_models := (ds_models ds)(table := ds_database ds table)\<rparr>"

text \<open>
  The new column handed to the migrator: a plain column of one of the listed types, or a
  foreign key to a field of a cached model.
\<close>

datatype column_def =
    PlainColumn string bool "string option"
  | ForeignKeyColumn string string bool "string option"

datatype operation =
    AddColumn string string column_def
  | DropColumn string string
  | RenameColumn string string string
  | AddIndex string "string list" bool
  | DropIndex string string

text \<open>
  \<^verbatim>\<open>migrate(dataset._migrator.op(...))\<close> runs in the database collaborator: it either raises
  or gives the changed catalog. It is a parameter of every handler.
\<close>

type_synonym migrator = "operation \<Rightarrow> (string \<rightharpoonup> table_schema) \<Rightarrow> exn + (string \<rightharpoonup> table_schema)"

datatype response = Redirect string | Render string | Abort nat

text \<open>What a handler leaves behind: the flashed (message, category) pairs, the response, the data set.\<close>

type_synonym outcome = "(string \<times> string) list \<times> response \<times> dataset"

definition require_table :: "(string \<Rightarrow> dataset \<Rightarrow> outcome) \<Rightarrow> string \<Rightarrow> dataset \<Rightarrow> outcome" where
  "require_table fn table ds =
     (if table \<notin> dom (ds_database ds) then ([], Abort 404, ds) else fn table ds)"

section \<open>Structural mutator\<close>

definition column_mapping :: "string list" where
  "column_mapping = [''TEXT'', ''INTEGER'', ''REAL'', ''BLOB'', ''JSON'', ''BOOL'', ''DATETIME'',
     ''DATE'', ''DECIMAL'', ''TIME'', ''VARCHAR'']"

text \<open>
  \<^verbatim>\<open>dataset._models[fk_table]._meta.fields[fk_field]\<close>: a \<^verbatim>\<open>KeyError\<close> when the table has no
  cached model or the model has no such field; its message is the key's \<^verbatim>\<open>repr\<close>.
\<close>

definition lookup_fk_field :: "dataset \<Rightarrow> string \<Rightarrow> string option \<Rightarrow> exn + column_metadata" where
  "lookup_fk_field ds fk_table fk_field =
     (case ds_models ds fk_table of
        None \<Rightarrow> Inl (py_repr fk_table)
      | Some s \<Rightarrow>
          (case fk_field of
             None \<Rightarrow> Inl ''None''
           | Some f \<Rightarrow> (case find (\<lambda>c. col_name c = f) (tbl_columns s) of
                         None \<Rightarrow> Inl (py_repr f)
                       | Some c \<Rightarrow> Inr c)))"

definition add_column_body :: "migrator \<Rightarrow> request \<Rightarrow> string \<Rightarrow> dataset \<Rightarrow> outcome" where
  \<open>add_column_body migrate req table ds =
     (let request_data = get_request_data req;
          col_type = md_get request_data ''type'';
          name = md_get_str request_data ''name'';
          fk_table = md_get request_data ''fk_table'';
          fk_field = md_get request_data ''fk_field'';
          nullable = truthy (md_get request_data ''option_null'');
          use_default = truthy (md_get request_data ''use_default'');
          default = (if \<not> use_default then None else md_get request_data ''default_value'')
      in if req_method req = POST then
           (if name \<noteq> [] \<and> (case col_type of None \<Rightarrow> False | Some t \<Rightarrow> t \<in> set column_mapping) then
              (case (if \<not> truthy fk_table then Inr (PlainColumn (the col_type) nullable default)
                     else (case lookup_fk_field ds (the fk_table) fk_field of
                             Inl e \<Rightarrow> Inl e
                           | Inr fk \<Rightarrow> Inr (ForeignKeyColumn (the fk_table) (col_name fk) nullable default))) of
                 Inl exc \<Rightarrow>
                   ([(''Error attempting to add column "'' @ name @ ''": '' @ exc, ''danger'')],
                    Render ''add_column.html'', ds)
               | Inr col \<Rightarrow>
                   (case migrate (AddColumn table name col) (ds_database ds) of
                      Inl exc \<Rightarrow>
                        ([(''Error attempting to add column "'' @ name @ ''": '' @ exc, ''danger'')],
                         Render ''add_column.html'', ds)
                    | Inr db' \<Rightarrow>
                        ([(''Column "'' @ name @ ''" was added successfully!'', ''success'')],
                         Redirect ''table_structure'',
                         update_cache table (ds\<lparr>ds_database := db'\<rparr>))))
            else ([(''Name and column type are required.'', ''danger'')],
                  Render ''add_column.html'', ds))
         else ([], Render ''add_column.html'', ds))\<close>

definition add_column :: "migrator \<Rightarrow> request \<Rightarrow> string \<Rightarrow> dataset \<Rightarrow> outcome" where
  "add_column migrate req = require_table (add_column_body migrate req)"

definition drop_column_body :: "migrator \<Rightarrow> request \<Rightarrow> string \<Rightarrow> dataset \<Rightarrow> outcome" where
  \<open>drop_column_body migrate req table ds =
     (let request_data = get_request_data req;
          name = md_get_str request_data ''name'';
          columns = get_columns ds table;
          column_names = map col_name columns
      in if req_method req = POST then
           (if name \<in> set column_names then
              (case migrate (DropColumn table name) (ds_database ds) of
                 Inl exc \<Rightarrow>
                   ([(''Error attempting to drop column "'' @ name @ ''": '' @ exc, ''danger'')],
                    Render ''drop_column.html'', ds)
               | Inr db' \<Rightarrow>
                   ([(''Column "'' @ name @ ''" was dropped successfully!'', ''success'')],
                    Redirect ''table_structure'',
                    update_cache table (ds\<lparr>ds_database := db'\<rparr>)))
            else ([(''Name is required.'', ''danger'')], Render ''drop_column.html'', ds))
         else ([], Render ''drop_column.html'', ds))\<close>

definition drop_column :: "migrator \<Rightarrow> request \<Rightarrow> string \<Rightarrow> dataset \<Rightarrow> outcome" where
  "drop_column migrate req = require_table (drop_column_body migrate req)"

definition rename_conflict_message :: string where
  "rename_conflict_message =
     ''Column name is required and cannot conflict with an existing column's name.''"

definition rename_column_body :: "migrator \<Rightarrow> request \<Rightarrow> string \<Rightarrow> dataset \<Rightarrow> outcome" where
  \<open>rename_column_body migrate req table ds =
     (let request_data = get_request_data req;
          rename = md_get_str request_data ''rename'';
          rename_to = md_get_str request_data ''rename_to'';
          columns = get_columns ds table;
          column_names = map col_name columns
      in if req_method req = POST then
           (if rename \<in> set column_names \<and> rename_to \<notin> set column_names then
              (case migrate (RenameColumn table rename rename_to) (ds_database ds) of
                 Inl exc \<Rightarrow>
                   ([(''Error attempting to rename column "'' @ rename @ ''": '' @ exc, ''danger'')],
                    Render ''rename_column.html'', ds)
               | Inr db' \<Rightarrow>
                   ([(''Column "'' @ rename @ ''" was renamed successfully!'', ''success'')],
                    Redirect ''table_structure'',
                    update_cache table (ds\<lparr>ds_database := db'\<rparr>)))
            else ([(rename_conflict_message, ''danger'')], Render ''rename_column.html'', ds))
         else ([], Render ''rename_column.html'', ds))\<close>

definition rename_column :: "migrator \<Rightarrow> request \<Rightarrow> string \<Rightarrow> dataset \<Rightarrow> outcome" where
  "rename_column migrate req = require_table (rename_column_body migrate req)"

definition add_index_body :: "migrator \<Rightarrow> request \<Rightarrow> string \<Rightarrow> dataset \<Rightarrow> outcome" where
  \<open>add_index_body migrate req table ds =
     (let request_data = get_request_data req;
          indexed_columns = md_getlist request_data ''indexed_columns'';
          unique = truthy (md_get request_data ''unique'')
      in if req_method req = POST then
           (if indexed_columns \<noteq> [] then
              (case migrate (AddIndex table indexed_columns unique) (ds_database ds) of
                 Inl exc \<Rightarrow>
                   ([(''Error attempting to create index: '' @ exc, ''danger'')],
                    Render ''add_index.html'', ds)
               | Inr db' \<Rightarrow>
                   ([(''Index created successfully.'', ''success'')],
                    Redirect ''table_structure'',
                    ds\<lparr>ds_database := db'\<rparr>))
            else ([(''One or more columns must be selected.'', ''danger'')],
                  Render ''add_index.html'', ds))
         else ([], Render ''add_index.html'', ds))\<close>

definition add_index :: "migrator \<Rightarrow> request \<Rightarrow> string \<Rightarrow> dataset \<Rightarrow> outcome" where
  "add_index migrate req = require_table (add_index_body migrate req)"

text \<open>
  \<^verbatim>\<open>indexes._migrator\<close> in \<^verbatim>\<open>drop_index\<close>: \<^verbatim>\<open>indexes\<close> is the list that
  \<^verbatim>\<open>get_indexes\<close> returned, and a Python list has no attribute of that name, so the
  lookup raises \<^verbatim>\<open>AttributeError\<close> whatever the list holds.
\<close>

definition list_migrator_attr :: "index_metadata list \<Rightarrow> exn + migrator" where
  "list_migrator_attr indexes =
     Inl (py_repr ''list'' @ '' object has no attribute '' @ py_repr ''_migrator'')"

definition drop_index_body :: "request \<Rightarrow> string \<Rightarrow> dataset \<Rightarrow> outcome" where
  \<open>drop_index_body req table ds =
     (let request_data = get_request_data req;
          name = md_get_str request_data ''name'';
          indexes = get_indexes ds table;
          index_names = map idx_name indexes
      in if req_method req = POST then
           (if name \<in> set index_names then
              (case (case list_migrator_attr indexes of
                       Inl exc \<Rightarrow> Inl exc
                     | Inr migrate \<Rightarrow> migrate (DropIndex table name) (ds_database ds)) of
                 Inl exc \<Rightarrow>
                   ([(''Error attempting to drop index: '' @ exc, ''danger'')],
                    Render ''drop_index.html'', ds)
               | Inr db' \<Rightarrow>
                   ([(''Index "'' @ name @ ''" was dropped successfully!'', ''success'')],
                    Redirect ''table_structure'',
                    ds\<lparr>ds_database := db'\<rparr>))
            else ([(''Index name is required.'', ''danger'')], Render ''drop_index.html'', ds))
         else ([], Render ''drop_index.html'', ds))\<close>

definition drop_index :: "request \<Rightarrow> string \<Rightarrow> dataset \<Rightarrow> outcome" where
  "drop_index req = require_table (drop_index_body req)"

section \<open>Value codec\<close>

text \<open>
  The field of a model column, as far as the codec looks at it: which of the field
  classes tested with \<^verbatim>\<open>isinstance\<close> it belongs to, and whether it allows NULL. An
  \<^verbatim>\<open>AutoField\<close> is an \<^verbatim>\<open>IntegerField\<close>; the other classes are unrelated.
\<close>

datatype field_class = AutoField | IntegerField | FloatField | BooleanField | BlobField | OtherField

record field =
  fld_class :: field_class
  fld_null :: bool

definition is_integer_field :: "field \<Rightarrow> bool" where
  "is_integer_field f = (fld_class f = AutoField \<or> fld_class f = IntegerField)"

text \<open>
  What the codec and the row handlers call outside this file, each call either raising or
  returning: \<^verbatim>\<open>float(value)\<close>, \<^verbatim>\<open>base64.b64decode(value)\<close>, \<^verbatim>\<open>field.db_value(value)\<close> of
  the storage adapter, and the field that the introspection of the database collaborator
  gives a column.
\<close>

record adapters =
  float_call :: "string \<Rightarrow> exn + unit"
  b64decode_call :: "string \<Rightarrow> exn + string"
  db_value :: "field \<Rightarrow> pyval \<Rightarrow> exn + unit"
  field_of :: "column_metadata \<Rightarrow> field"

definition boolean_tokens :: "string list" where
  "boolean_tokens = [''1'', ''0'', ''true'', ''false'', ''t'', ''f'']"

text \<open>
  \<^verbatim>\<open>minimal_validate_field(field, value)\<close> returns the pair (value, error), the error
  being \<^verbatim>\<open>None\<close> or a message. Every call that can raise sits in a \<^verbatim>\<open>try\<close> whose
  \<^verbatim>\<open>except Exception\<close> clause returns a pair.
\<close>

definition minimal_validate_field :: "adapters \<Rightarrow> field \<Rightarrow> string \<Rightarrow> pyval \<times> string option" where
  "minimal_validate_field env field raw =
     (if py_strip (py_lower raw) = ''null'' then
        (if \<not> fld_null field then (PyStr ''NULL'', Some ''Column does not allow NULL values.'')
         else (PyNone, None))
      else
        (case
           (if is_integer_field field \<and> \<not> py_isdigit raw then
              Inl (PyStr raw, Some ''Value is not a number.'')
            else if fld_class field = FloatField then
              (case float_call env raw of
                 Inl exc \<Rightarrow> Inl (PyStr raw, Some ''Value is not a numeric/real.'')
               | Inr u \<Rightarrow> Inr (PyStr raw))
            else if fld_class field = BooleanField then
              (if py_lower raw \<notin> set boolean_tokens then
                 Inl (PyStr raw, Some ''Value must be 1, 0, true, false, t or f.'')
               else Inr (PyBool (py_lower raw \<in> set [''1'', ''t'', ''true''])))
            else if fld_class field = BlobField then
              (case b64decode_call env raw of
                 Inl exc \<Rightarrow> Inl (PyStr raw, Some ''Value must be base64-encoded binary data.'')
               | Inr bs \<Rightarrow> Inr (PyBytes bs))
            else Inr (PyStr raw))
         of
           Inl returned \<Rightarrow> returned
         | Inr value \<Rightarrow>
             (case db_value env field value of
                Inl exc \<Rightarrow> (value, Some exc)
              | Inr u \<Rightarrow> (value, None))))"

text \<open>\<^verbatim>\<open>if err:\<close> in the callers: a message counts as an error when it is not empty.\<close>

definition is_error :: "string option \<Rightarrow> bool" where
  "is_error err = (case err of None \<Rightarrow> False | Some msg \<Rightarrow> msg \<noteq> [])"

text \<open>The messages the codec itself returns, one for each reason it rejects a value.\<close>

definition structured_messages :: "string set" where
  "structured_messages =
     {''Column does not allow NULL values.'', ''Value is not a number.'',
      ''Value is not a numeric/real.'', ''Value must be 1, 0, true, false, t or f.'',
      ''Value must be base64-encoded binary data.''}"

subsection \<open>The base64 decoder of the standard library\<close>

text \<open>
  \<^verbatim>\<open>base64.b64decode(s)\<close> with its default \<^verbatim>\<open>validate=False\<close>, for a \<^verbatim>\<open>str\<close> argument. The
  string is first encoded as ASCII, which raises for a character above 127. Then
  \<^verbatim>\<open>binascii.a2b_base64\<close> reads it character by character: a character outside the
  alphabet is skipped; a character of the alphabet contributes six bits to the current
  group of four; a padding sign ends the input once it completes a group that holds at
  least two characters, and is skipped otherwise. Input that ends inside a group is an
  error.
\<close>

definition b64_alphabet :: string where
  "b64_alphabet = ''ABCDEFGHIJKLMNOPQRSTUVWXYZabcdefghijklmnopqrstuvwxyz0123456789+/''"

fun index_of :: "'a \<Rightarrow> 'a list \<Rightarrow> nat option" where
  "index_of x [] = None"
| "index_of x (y # ys) =
     (if x = y then Some 0 else (case index_of x ys of None \<Rightarrow> None | Some i \<Rightarrow> Some (Suc i)))"

definition b64_value :: "char \<Rightarrow> nat option" where
  "b64_value c = index_of c b64_alphabet"

text \<open>The characters the decoder looks at: those of the alphabet and the padding sign.\<close>

definition b64_significant :: "char \<Rightarrow> bool" where
  "b64_significant c = (c = CHR ''='' \<or> c \<in> set b64_alphabet)"

text \<open>
  \<open>a2b_base64 quad_pos leftchar pads out s\<close>: the loop of the decoder with its state, the
  bytes written so far and the characters still to read.
\<close>

fun a2b_base64 :: "nat \<Rightarrow> nat \<Rightarrow> nat \<Rightarrow> string \<Rightarrow> string \<Rightarrow> exn + string" where
  "a2b_base64 quad_pos leftchar pads out [] =
     (if quad_pos \<noteq> 0 then
        (if quad_pos = 1 then
           Inl (''Invalid base64-encoded string: number of data characters ('' @
                str_of_nat (length out div 3 * 4 + 1) @
                '') cannot be 1 more than a multiple of 4'')
         else Inl ''Incorrect padding'')
      else Inr out)"
| "a2b_base64 quad_pos leftchar pads out (c # cs) =
     (if c = CHR ''='' then
        (if quad_pos \<ge> 2 \<and> quad_pos + (pads + 1) \<ge> 4 then Inr out
         else a2b_base64 quad_pos leftchar (if quad_pos \<ge> 2 then pads + 1 else pads) out cs)
      else
        (case b64_value c of
           None \<Rightarrow> a2b_base64 quad_pos leftchar pads out cs
         | Some v \<Rightarrow>
             (if quad_pos = 0 then a2b_base64 1 v 0 out cs
              else if quad_pos = 1 then
                a2b_base64 2 (v mod 16) 0 (out @ [char_of (leftchar * 4 + v div 16)]) cs
              else if quad_pos = 2 then
                a2b_base64 3 (v mod 4) 0 (out @ [char_of (leftchar * 16 + v div 4)]) cs
              else a2b_base64 0 0 0 (out @ [char_of (leftchar * 64 + v)]) cs)))"

definition is_ascii :: "string \<Rightarrow> bool" where
  "is_ascii s = list_all (\<lambda>c. (of_char c :: nat) < 128) s"

definition b64decode :: "string \<Rightarrow> exn + string" where
  "b64decode s =
     (if \<not> is_ascii s then Inl ''string argument should contain only ASCII characters''
      else a2b_base64 0 0 0 [] s)"

text \<open>
  A string in the base64 form of RFC 4648: characters of the alphabet, then at most two
  padding signs, four characters to each group.
\<close>

definition valid_base64 :: "string \<Rightarrow> bool" where
  "valid_base64 s =
     (let body = takeWhile (\<lambda>c. c \<noteq> CHR ''='') s; padding = dropWhile (\<lambda>c. c \<noteq> CHR ''='') s
      in list_all (\<lambda>c. c \<in> set b64_alphabet) body
         \<and> (padding = [] \<or> padding = ''='' \<or> padding = ''=='')
         \<and> length s mod 4 = 0)"

section \<open>Primary-key codec\<close>

text \<open>
  \<^verbatim>\<open>model._meta.primary_key\<close>: \<^verbatim>\<open>False\<close> for a table without a key, a field for a
  single-column key, a \<^verbatim>\<open>CompositeKey\<close> with the ordered field names otherwise.
\<close>

datatype primary_key = NoKey | SingleKey string | CompositeKey "string list"

type_synonym row = "string \<rightharpoonup> pyval"

text \<open>\<^verbatim>\<open>[str(row[k]) for k in pk.field_names]\<close>: a \<^verbatim>\<open>KeyError\<close> at the first missing field.\<close>

fun key_strings :: "row \<Rightarrow> string list \<Rightarrow> exn + string list" where
  "key_strings r [] = Inr []"
| "key_strings r (k # ks) =
     (case r k of
        None \<Rightarrow> Inl (py_repr k)
      | Some v \<Rightarrow> (case key_strings r ks of Inl e \<Rightarrow> Inl e | Inr vs \<Rightarrow> Inr (py_str v # vs)))"

definition encode_pk :: "row \<Rightarrow> primary_key \<Rightarrow> exn + pyval" where
  "encode_pk r pk =
     (case pk of
        CompositeKey field_names \<Rightarrow>
          (case key_strings r field_names of
             Inr vs \<Rightarrow> Inr (PyStr (py_join '':::'' vs))
           | Inl exc \<Rightarrow> Inr (PyStr ''__uneditable__''))
      | SingleKey column_name \<Rightarrow>
          (case r column_name of None \<Rightarrow> Inl (py_repr column_name) | Some v \<Rightarrow> Inr v)
      | NoKey \<Rightarrow> Inl (py_repr ''bool'' @ '' object has no attribute '' @ py_repr ''column_name''))"

text \<open>
  The expressions \<^verbatim>\<open>decode_pk\<close> builds: \<^verbatim>\<open>field == value\<close>, their conjunction with
  \<^verbatim>\<open>operator.and_\<close>, and the plain \<^verbatim>\<open>False\<close> that comparing the missing key of a table
  without primary key gives.
\<close>

datatype expression = Eq string string | And expression expression | PyFalse

text \<open>\<^verbatim>\<open>reduce(operator.and_, expressions)\<close>: a \<^verbatim>\<open>TypeError\<close> on the empty list.\<close>

definition reduce_and :: "expression list \<Rightarrow> exn + expression" where
  "reduce_and es =
     (case es of
        [] \<Rightarrow> Inl ''reduce() of empty iterable with no initial value''
      | e # rest \<Rightarrow> Inr (foldl And e rest))"

definition decode_pk :: "primary_key \<Rightarrow> string \<Rightarrow> exn + expression" where
  "decode_pk pk pk_data =
     (case pk of
        CompositeKey field_names \<Rightarrow>
          (let values = py_split pk_data '':::'';
               expressions = map (\<lambda>(f, v). Eq f v) (zip field_names values)
           in reduce_and expressions)
      | SingleKey column_name \<Rightarrow> Inr (Eq column_name pk_data)
      | NoKey \<Rightarrow> Inr PyFalse)"

text \<open>
  How the database engine compares the value stored in a column with a bound token, after
  the coercion of the field and the affinity of the column, is not under \<^verbatim>\<open>src/\<close>: the
  comparison is a parameter, given the column, the stored value and the token. A
  comparison of a field with a token holds of a row when the row stores a value for the
  field and the engine equates it with the token.
\<close>

type_synonym comparison = "string \<Rightarrow> pyval \<Rightarrow> string \<Rightarrow> bool"

fun holds :: "comparison \<Rightarrow> expression \<Rightarrow> row \<Rightarrow> bool" where
  "holds eq (Eq f v) r = (case r f of None \<Rightarrow> False | Some x \<Rightarrow> eq f x v)"
| "holds eq (And a b) r = (holds eq a r \<and> holds eq b r)"
| "holds eq PyFalse r = False"


section \<open>Row access\<close>

text \<open>
  The page arithmetic at the head of \<^verbatim>\<open>table_content\<close>: the requested page and the
  number of pages. The source computes \<^verbatim>\<open>math.ceil(total_rows / float(rows_per_page))\<close> in
  floating point, which is the exact ceiling for row counts below \<open>2 ^ 53\<close>; the model
  takes the exact ceiling of the quotient. A zero page size raises
  \<^verbatim>\<open>ZeroDivisionError\<close>.
\<close>

definition ceil_div :: "int \<Rightarrow> int \<Rightarrow> int" where
  "ceil_div a b = - ((- a) div b)"

definition table_content_page :: "string option \<Rightarrow> nat \<Rightarrow> int \<Rightarrow> exn + (int \<times> int)" where
  "table_content_page page total_rows rows_per_page =
     (let page_number = (case page of None \<Rightarrow> [] | Some s \<Rightarrow> s);
          page_number = (if page_number = ''last'' then ''1000000'' else page_number)
      in case (if py_isdigit page_number then py_int page_number else Inr 1) of
           Inl exc \<Rightarrow> Inl exc
         | Inr page_number \<Rightarrow>
             (if rows_per_page = 0 then Inl ''float division by zero''
              else
                (let total_pages = max 1 (ceil_div (int total_rows) rows_per_page);
                     page_number = min page_number total_pages;
                     page_number = max page_number 1
                 in Inr (page_number, total_pages))))"

text \<open>
  \<^verbatim>\<open>request.form.items()\<close>: one pair for each key, with the first value stored under it,
  in the order in which the keys first occur.
\<close>

function md_items :: "(string \<times> string) list \<Rightarrow> (string \<times> string) list" where
  "md_items [] = []"
| "md_items ((k, v) # d) = (k, v) # md_items (filter (\<lambda>kv. fst kv \<noteq> k) d)"
  by pat_completeness auto
termination
  by (relation "measure length") (auto simp: less_Suc_eq_le)

text \<open>
  The state of the loop over the submitted form in \<^verbatim>\<open>table_insert\<close> and
  \<^verbatim>\<open>table_update\<close>: the set \<^verbatim>\<open>edited\<close>, the dictionary \<^verbatim>\<open>row\<close> shown in the form, the
  dictionary \<^verbatim>\<open>errors\<close>, and the dictionary of validated values (\<^verbatim>\<open>insert\<close> or
  \<^verbatim>\<open>update\<close>), keyed by the column of the field.
\<close>

record form_state =
  fs_edited :: "string set"
  fs_row :: "string \<rightharpoonup> pyval"
  fs_errors :: "string \<rightharpoonup> string"
  fs_values :: "string \<rightharpoonup> pyval"

text \<open>The body of the loop, for one submitted pair, and the loop over all of them.\<close>

definition form_entry ::
  "adapters \<Rightarrow> (string \<rightharpoonup> column_metadata) \<Rightarrow> string \<times> string \<Rightarrow> form_state \<Rightarrow> form_state"
where
  "form_entry env col_dict item st =
     (case item of (key, raw) \<Rightarrow>
        (case col_dict key of
           None \<Rightarrow> st
         | Some column \<Rightarrow>
             (let st1 = st\<lparr>fs_edited := insert (col_name column) (fs_edited st),
                           fs_row := (fs_row st)(col_name column \<mapsto> PyStr raw)\<rparr>;
                  field = field_of env column
              in case minimal_validate_field env field raw of
                   (value, err) \<Rightarrow>
                     (case err of
                        None \<Rightarrow> st1\<lparr>fs_values := (fs_values st1)(col_name column \<mapsto> value)\<rparr>
                      | Some msg \<Rightarrow>
                          (if msg \<noteq> [] then st1\<lparr>fs_errors := (fs_errors st1)(key \<mapsto> msg)\<rparr>
                           else st1\<lparr>fs_values := (fs_values st1)(col_name column \<mapsto> value)\<rparr>)))))"

definition form_loop ::
  "adapters \<Rightarrow> (string \<rightharpoonup> column_metadata) \<Rightarrow> (string \<times> string) list \<Rightarrow> form_state \<Rightarrow> form_state"
where
  "form_loop env col_dict items st = fold (form_entry env col_dict) items st"

text \<open>
  The statements that change rows run in the database engine, inside
  \<^verbatim>\<open>dataset.transaction()\<close>: each either raises, and the transaction is rolled back, or
  gives its result and the new rows of the table. They are parameters of the handlers,
  and so is the lookup of the row a predicate selects.
\<close>

record engine =
  execute_insert :: "(string \<rightharpoonup> pyval) \<Rightarrow> row list \<Rightarrow> exn + (pyval \<times> row list)"
  execute_update :: "(string \<rightharpoonup> pyval) \<Rightarrow> expression \<Rightarrow> row list \<Rightarrow> exn + (pyval \<times> row list)"
  model_get :: "expression \<Rightarrow> row list \<Rightarrow> row option"

text \<open>What a row handler leaves behind: flashes, response, form state, data set, rows.\<close>

type_synonym row_outcome = "(string \<times> string) list \<times> response \<times> form_state \<times> dataset \<times> row list"

definition empty_form_state :: form_state where
  "empty_form_state = \<lparr>fs_edited = {}, fs_row = Map.empty, fs_errors = Map.empty, fs_values = Map.empty\<rparr>"

definition insert_col_dict :: "adapters \<Rightarrow> column_metadata list \<Rightarrow> (string \<rightharpoonup> column_metadata)" where
  "insert_col_dict env columns =
     fold (\<lambda>column d. if fld_class (field_of env column) = AutoField then d
                        else d(col_name column \<mapsto> column)) columns Map.empty"

definition table_insert_body ::
  "adapters \<Rightarrow> engine \<Rightarrow> request \<Rightarrow> string \<Rightarrow> dataset \<Rightarrow> row list \<Rightarrow> row_outcome" where
  "table_insert_body env eng req table ds0 rows =
     (let ds = update_cache table ds0;
          col_dict = insert_col_dict env (get_columns ds table);
          st0 = empty_form_state\<lparr>fs_row := (\<lambda>k. if k \<in> dom col_dict then Some (PyStr []) else None)\<rparr>
      in if req_method req = POST then
           (let st = form_loop env col_dict (md_items (req_form req)) st0
            in if fs_errors st \<noteq> Map.empty then
                 ([(''One or more errors prevented the row being inserted.'', ''danger'')],
                  Render ''table_insert.html'', st, ds, rows)
               else if fs_values st \<noteq> Map.empty then
                 (case execute_insert eng (fs_values st) rows of
                    Inl exc \<Rightarrow>
                      ([(''Insert failed: '' @ exc, ''danger'')], Render ''table_insert.html'', st, ds, rows)
                  | Inr (n, rows') \<Rightarrow>
                      ([(''Successfully inserted record ('' @ py_str n @ '').'', ''success'')],
                       Redirect ''table_content'', st, ds, rows'))
               else
                 ([(''No data was specified to be inserted.'', ''warning'')],
                  Render ''table_insert.html'', st, ds, rows))
         else ([], Render ''table_insert.html'', st0\<lparr>fs_edited := dom col_dict\<rparr>, ds, rows))"

definition table_insert ::
  "adapters \<Rightarrow> engine \<Rightarrow> request \<Rightarrow> string \<Rightarrow> dataset \<Rightarrow> row list \<Rightarrow> row_outcome" where
  "table_insert env eng req table ds rows =
     (if table \<notin> dom (ds_database ds) then ([], Abort 404, empty_form_state, ds, rows)
      else table_insert_body env eng req table ds rows)"

text \<open>
  \<^verbatim>\<open>base64.b64encode\<close> of a bytes object, and of anything else a \<^verbatim>\<open>TypeError\<close>.
\<close>

fun b64encode :: "string \<Rightarrow> string" where
  "b64encode [] = []"
| "b64encode [a] =
     (let x = (of_char a :: nat)
      in [b64_alphabet ! (x div 4), b64_alphabet ! (x mod 4 * 16), CHR ''='', CHR ''=''])"
| "b64encode [a, b] =
     (let x = (of_char a :: nat); y = (of_char b :: nat)
      in [b64_alphabet ! (x div 4), b64_alphabet ! (x mod 4 * 16 + y div 16),
          b64_alphabet ! (y mod 16 * 4), CHR ''=''])"
| "b64encode (a # b # c # rest) =
     (let x = (of_char a :: nat); y = (of_char b :: nat); z = (of_char c :: nat)
      in [b64_alphabet ! (x div 4), b64_alphabet ! (x mod 4 * 16 + y div 16),
          b64_alphabet ! (y mod 16 * 4 + z div 64), b64_alphabet ! (z mod 64)]
         @ b64encode rest)"

definition b64encode_call :: "pyval \<Rightarrow> exn + string" where
  "b64encode_call v =
     (case v of
        PyBytes bs \<Rightarrow> Inr (b64encode bs)
      | _ \<Rightarrow> Inl ''a bytes-like object is required'')"

text \<open>
  The dictionary \<^verbatim>\<open>row\<close> and the dictionary \<^verbatim>\<open>col_dict\<close> that \<^verbatim>\<open>table_update\<close> fills
  from the fetched object, column by column: \<^verbatim>\<open>None\<close> stays, the value of a blob column
  is shown in base64, any other value as it is. Reading an attribute the object does not
  have raises \<^verbatim>\<open>AttributeError\<close>.
\<close>

fun update_columns ::
  "row \<Rightarrow> column_metadata list \<Rightarrow> (string \<rightharpoonup> pyval) \<times> (string \<rightharpoonup> column_metadata)
     \<Rightarrow> exn + (string \<rightharpoonup> pyval) \<times> (string \<rightharpoonup> column_metadata)" where
  "update_columns obj [] (shown, col_dict) = Inr (shown, col_dict)"
| "update_columns obj (column # columns) (shown, col_dict) =
     (case obj (col_name column) of
        None \<Rightarrow> Inl (''object has no attribute '' @ py_repr (col_name column))
      | Some value \<Rightarrow>
          (case (if value = PyNone then Inr PyNone
                 else if py_lower (col_data_type column) = ''blob'' then
                   (case b64encode_call value of Inl exc \<Rightarrow> Inl exc | Inr t \<Rightarrow> Inr (PyStr t))
                 else Inr value) of
             Inl exc \<Rightarrow> Inl exc
           | Inr v \<Rightarrow>
               update_columns obj columns
                 (shown(col_name column \<mapsto> v), col_dict(col_name column \<mapsto> column))))"

definition table_update_body ::
  "adapters \<Rightarrow> engine \<Rightarrow> primary_key \<Rightarrow> request \<Rightarrow> string \<Rightarrow> string \<Rightarrow> dataset \<Rightarrow> row list
     \<Rightarrow> exn + row_outcome" where
  "table_update_body env eng table_pk req table pk ds0 rows =
     (let ds = update_cache table ds0
      in if table_pk = NoKey then
           Inr ([(''Table must have a primary key to perform update.'', ''danger'')],
                Redirect ''table_content'', empty_form_state, ds, rows)
         else if pk = ''__uneditable__'' then
           Inr ([(''Could not encode primary key to perform update.'', ''danger'')],
                Redirect ''table_content'', empty_form_state, ds, rows)
         else
           (case decode_pk table_pk pk of
              Inl exc \<Rightarrow> Inl exc
            | Inr expr \<Rightarrow>
                (case model_get eng expr rows of
                   None \<Rightarrow>
                     Inr ([(''Could not fetch row with primary-key '' @
                             (case table_pk of
                                CompositeKey fs \<Rightarrow>
                                  ''('' @ py_join '', '' (map py_repr (py_split pk '':::'')) @
                                  (if length (py_split pk '':::'') = 1 then '','' else []) @ '')''
                              | _ \<Rightarrow> pk) @ ''.'', ''danger'')],
                          Redirect ''table_content'', empty_form_state, ds, rows)
                 | Some obj \<Rightarrow>
                     (case update_columns obj (get_columns ds table) (Map.empty, Map.empty) of
                        Inl exc \<Rightarrow> Inl exc
                      | Inr (shown, col_dict) \<Rightarrow>
                          (let st0 = empty_form_state\<lparr>fs_row := shown\<rparr>
                           in if req_method req = POST then
                                (let st = form_loop env col_dict (md_items (req_form req)) st0
                                 in if fs_errors st \<noteq> Map.empty then
                                      Inr ([(''One or more errors prevented the row being updated.'',
                                             ''danger'')],
                                           Render ''table_update.html'', st, ds, rows)
                                    else if fs_values st \<noteq> Map.empty then
                                      (case execute_update eng (fs_values st) expr rows of
                                         Inl exc \<Rightarrow>
                                           Inr ([(''Update failed: '' @ exc, ''danger'')],
                                                Render ''table_update.html'', st, ds, rows)
                                       | Inr (n, rows') \<Rightarrow>
                                           Inr ([(''Successfully updated '' @ py_str n @ '' record.'',
                                                  ''success'')],
                                                Redirect ''table_content'', st, ds, rows'))
                                    else
                                      Inr ([(''No data was specified to be updated.'', ''warning'')],
                                           Render ''table_update.html'', st, ds, rows))
                              else Inr ([], Render ''table_update.html'', st0, ds, rows))))))"

definition table_update ::
  "adapters \<Rightarrow> engine \<Rightarrow> primary_key \<Rightarrow> request \<Rightarrow> string \<Rightarrow> string \<Rightarrow> dataset \<Rightarrow> row list
     \<Rightarrow> exn + row_outcome" where
  "table_update env eng table_pk req table pk ds rows =
     (if table \<notin> dom (ds_database ds) then Inr ([], Abort 404, empty_form_state, ds, rows)
      else table_update_body env eng table_pk req table pk ds rows)"

text \<open>
  A submitted pair fails in a handler when its key is a key of the handler's
  \<^verbatim>\<open>col_dict\<close> (for \<^verbatim>\<open>table_insert\<close>: a column of the table that is not an
  \<^verbatim>\<open>AutoField\<close>) and the codec returns a message for its value that the handler's
  \<^verbatim>\<open>if err:\<close> takes for an error, that is a message that is not empty. A value
  submitted under any other key is never given to the codec.
\<close>

definition fails :: "adapters \<Rightarrow> (string \<rightharpoonup> column_metadata) \<Rightarrow> string \<times> string \<Rightarrow> bool" where
  "fails env col_dict item =
     (case col_dict (fst item) of
        None \<Rightarrow> False
      | Some column \<Rightarrow>
          is_error (snd (minimal_validate_field env (field_of env column) (snd item))))"

section \<open>Fixtures for concrete evaluation\<close>

text \<open>
  A small stand-in for the migrator of the database collaborator, used only where a
  statement is evaluated on a concrete catalog: it applies the operation to the catalog
  entry of the table and raises when the table is missing.
\<close>

fun reference_migrate :: migrator where
  "reference_migrate (AddColumn table name col) db =
     (case db table of
        None \<Rightarrow> Inl (''no such table: '' @ table)
      | Some s \<Rightarrow>
          Inr (db(table \<mapsto> s\<lparr>tbl_columns := tbl_columns s @
            [(case col of
                PlainColumn t nullable dflt \<Rightarrow>
                  \<lparr>col_name = name, col_data_type = t, col_null = nullable,
                   col_primary_key = False, col_default = dflt\<rparr>
              | ForeignKeyColumn ft ff nullable dflt \<Rightarrow>
                  \<lparr>col_name = name, col_data_type = ''INTEGER'', col_null = nullable,
                   col_primary_key = False, col_default = dflt\<rparr>)]\<rparr>)))"
| "reference_migrate (DropColumn table name) db =
     (case db table of
        None \<Rightarrow> Inl (''no such table: '' @ table)
      | Some s \<Rightarrow>
          Inr (db(table \<mapsto> s\<lparr>tbl_columns := filter (\<lambda>c. col_name c \<noteq> name) (tbl_columns s)\<rparr>)))"
| "reference_migrate (RenameColumn table old new) db =
     (case db table of
        None \<Rightarrow> Inl (''no such table: '' @ table)
      | Some s \<Rightarrow>
          Inr (db(table \<mapsto> s\<lparr>tbl_columns :=
            map (\<lambda>c. if col_name c = old then c\<lparr>col_name := new\<rparr> else c) (tbl_columns s)\<rparr>)))"
| "reference_migrate (AddIndex table cols unique) db =
     (case db table of
        None \<Rightarrow> Inl (''no such table: '' @ table)
      | Some s \<Rightarrow>
          Inr (db(table \<mapsto> s\<lparr>tbl_indexes := tbl_indexes s @
            [\<lparr>idx_name = table @ ''_'' @ concat cols, idx_sql = [], idx_columns = cols,
              idx_unique = unique\<rparr>]\<rparr>)))"
| "reference_migrate (DropIndex table name) db =
     (case db table of
        None \<Rightarrow> Inl (''no such table: '' @ table)
      | Some s \<Rightarrow>
          Inr (db(table \<mapsto> s\<lparr>tbl_indexes := filter (\<lambda>i. idx_name i \<noteq> name) (tbl_indexes s)\<rparr>)))"

definition example_schema :: table_schema where
  "example_schema =
     \<lparr>tbl_columns =
        [\<lparr>col_name = ''a'', col_data_type = ''TEXT'', col_null = False, col_primary_key = True,
          col_default = None\<rparr>,
         \<lparr>col_name = ''b'', col_data_type = ''TEXT'', col_null = True, col_primary_key = False,
          col_default = None\<rparr>],
      tbl_indexes =
        [\<lparr>idx_name = ''t_b'', idx_sql = [], idx_columns = [''b''], idx_unique = False\<rparr>]\<rparr>"

definition example_dataset :: dataset where
  "example_dataset =
     \<lparr>ds_database = [''t'' \<mapsto> example_schema], ds_models = [''t'' \<mapsto> example_schema]\<rparr>"

definition post_request :: "(string \<times> string) list \<Rightarrow> request" where
  "post_request form = \<lparr>req_method = POST, req_form = form, req_args = []\<rparr>"

definition add_column_request :: request where
  "add_column_request =
     post_request [(''name'', ''age''), (''type'', ''INTEGER''), (''option_null'', ''on'')]"

definition age_column :: column_metadata where
  "age_column = \<lparr>col_name = ''age'', col_data_type = ''INTEGER'', col_null = True,
     col_primary_key = False, col_default = None\<rparr>"

definition add_index_request :: request where
  "add_index_request = post_request [(''indexed_columns'', ''a'')]"

definition new_index :: index_metadata where
  "new_index = \<lparr>idx_name = ''t_a'', idx_sql = [], idx_columns = [''a''], idx_unique = False\<rparr>"

definition after_add_column :: dataset where
  "after_add_column =
     \<lparr>ds_database = [''t'' \<mapsto> example_schema\<lparr>tbl_columns := tbl_columns example_schema @ [age_column]\<rparr>],
      ds_models = [''t'' \<mapsto> example_schema\<lparr>tbl_columns := tbl_columns example_schema @ [age_column]\<rparr>]\<rparr>"

definition after_drop_column :: dataset where
  "after_drop_column =
     \<lparr>ds_database = [''t'' \<mapsto> example_schema\<lparr>tbl_columns := [hd (tbl_columns example_schema)]\<rparr>],
      ds_models = [''t'' \<mapsto> example_schema\<lparr>tbl_columns := [hd (tbl_columns example_schema)]\<rparr>]\<rparr>"

definition after_rename_column :: dataset where
  "after_rename_column =
     \<lparr>ds_database = [''t'' \<mapsto> example_schema\<lparr>tbl_columns :=
        [hd (tbl_columns example_schema), (last (tbl_columns example_schema))\<lparr>col_name := ''c''\<rparr>]\<rparr>],
      ds_models = [''t'' \<mapsto> example_schema\<lparr>tbl_columns :=
        [hd (tbl_columns example_schema), (last (tbl_columns example_schema))\<lparr>col_name := ''c''\<rparr>]\<rparr>]\<rparr>"

definition after_add_index :: dataset where
  "after_add_index =
     \<lparr>ds_database = [''t'' \<mapsto> example_schema\<lparr>tbl_indexes := tbl_indexes example_schema @ [new_index]\<rparr>],
      ds_models = [''t'' \<mapsto> example_schema]\<rparr>"

definition key_row :: "string \<Rightarrow> string \<Rightarrow> row" where
  "key_row x y = [''a'' \<mapsto> PyStr x, ''b'' \<mapsto> PyStr y]"


text \<open>
  Stand-ins for the calls outside the file, for concrete evaluation only: \<^verbatim>\<open>float\<close>
  accepts the plain decimal numerals, the storage adapter accepts every value, and the
  introspection picks the field class from the declared type of the column.
\<close>

definition reference_float :: "string \<Rightarrow> exn + unit" where
  "reference_float s =
     (if list_all (\<lambda>c. ascii_digit c \<or> c = CHR ''.'') s \<and> list_ex ascii_digit s
         \<and> length (filter (\<lambda>c. c = CHR ''.'') s) \<le> 1
      then Inr () else Inl (''could not convert string to float: '' @ py_repr s))"

definition reference_field_of :: "column_metadata \<Rightarrow> field" where
  "reference_field_of c =
     \<lparr>fld_class =
        (let t = py_lower (col_data_type c)
         in if t = ''integer'' \<and> col_primary_key c then AutoField
            else if t = ''integer'' then IntegerField
            else if t = ''real'' then FloatField
            else if t = ''bool'' then BooleanField
            else if t = ''blob'' then BlobField
            else OtherField),
      fld_null = col_null c\<rparr>"

definition reference_adapters :: adapters where
  "reference_adapters =
     \<lparr>float_call = reference_float, b64decode_call = b64decode,
      db_value = (\<lambda>f v. Inr ()), field_of = reference_field_of\<rparr>"

definition blob_field :: field where
  "blob_field = \<lparr>fld_class = BlobField, fld_null = False\<rparr>"

definition bool_field :: field where
  "bool_field = \<lparr>fld_class = BooleanField, fld_null = False\<rparr>"

definition nullable_text_field :: field where
  "nullable_text_field = \<lparr>fld_class = OtherField, fld_null = True\<rparr>"

text \<open>
  A stand-in for the comparison of the database engine on typed key columns, for concrete
  evaluation only: NULL and bytes equal no token, an integer equals a token that reads
  as that integer, a boolean equals a token of the same truth value, text equals itself.
\<close>

definition token_int :: "string \<Rightarrow> int option" where
  "token_int t =
     (case py_strip t of
        [] \<Rightarrow> None
      | c # cs \<Rightarrow>
          (if c = CHR ''-'' then (case py_int cs of Inl e \<Rightarrow> None | Inr n \<Rightarrow> Some (- n))
           else if c = CHR ''+'' then (case py_int cs of Inl e \<Rightarrow> None | Inr n \<Rightarrow> Some n)
           else (case py_int (c # cs) of Inl e \<Rightarrow> None | Inr n \<Rightarrow> Some n)))"

definition reference_equal :: comparison where
  "reference_equal column stored token =
     (case stored of
        PyNone \<Rightarrow> False
      | PyBool b \<Rightarrow> (b = (token \<noteq> []))
      | PyInt i \<Rightarrow> token_int token = Some i
      | PyStr t \<Rightarrow> t = token
      | PyBytes bs \<Rightarrow> False)"

text \<open>
  A stand-in for the database engine, for concrete evaluation only: an insert appends the
  row and returns the new number of rows, an update overwrites the given columns of the
  rows the predicate selects and returns their number, a lookup returns the first row the
  predicate selects.
\<close>

definition reference_engine :: engine where
  "reference_engine =
     \<lparr>execute_insert = (\<lambda>vals rows. Inr (PyInt (int (length rows) + 1), rows @ [vals])),
      execute_update = (\<lambda>vals e rows.
         Inr (PyInt (int (length (filter (holds reference_equal e) rows))),
              map (\<lambda>r. if holds reference_equal e r then r ++ vals else r) rows)),
      model_get = (\<lambda>e rows. find (holds reference_equal e) rows)\<rparr>"

text \<open>An engine whose statements all fail, to tell whether a handler ran one.\<close>

definition failing_engine :: engine where
  "failing_engine =
     \<lparr>execute_insert = (\<lambda>vals rows. Inl ''database is locked''),
      execute_update = (\<lambda>vals e rows. Inl ''database is locked''),
      model_get = (\<lambda>e rows. find (holds reference_equal e) rows)\<rparr>"



definition people_id_column :: column_metadata where
  "people_id_column = \<lparr>col_name = ''id'', col_data_type = ''INTEGER'', col_null = False,
     col_primary_key = True, col_default = None\<rparr>"

definition people_name_column :: column_metadata where
  "people_name_column = \<lparr>col_name = ''name'', col_data_type = ''TEXT'', col_null = True,
     col_primary_key = False, col_default = None\<rparr>"

definition people_schema :: table_schema where
  "people_schema = \<lparr>tbl_columns = [people_id_column, people_name_column], tbl_indexes = []\<rparr>"

definition people_dataset :: dataset where
  "people_dataset =
     \<lparr>ds_database = [''people'' \<mapsto> people_schema], ds_models = [''people'' \<mapsto> people_schema]\<rparr>"

definition auto_key_request :: request where
  "auto_key_request = post_request [(''id'', ''abc''), (''name'', ''x'')]"

definition name_row :: "string \<Rightarrow> row" where
  "name_row n = [''name'' \<mapsto> PyStr n]"

definition insert_request :: request where
  "insert_request = post_request [(''b'', ''fine''), (''a'', ''null''), (''zz'', ''1'')]"

definition extra_key_request :: request where
  "extra_key_request = post_request [(''b'', ''fine''), (''zz'', ''1''), (''a'', ''k2'')]"

definition known_key_request :: request where
  "known_key_request = post_request [(''b'', ''fine''), (''a'', ''k2'')]"

definition update_request :: request where
  "update_request = post_request [(''b'', ''new''), (''zz'', ''1'')]"

section \<open>Verified properties\<close>

subsection \<open>Structural mutator\<close>

lemma get_columns_in_dom:
  "x \<in> set (map col_name (get_columns ds table)) \<Longrightarrow> table \<in> dom (ds_database ds)"
  by (cases "ds_database ds table") (auto simp: get_columns_def)

text \<open>
  C7. When the form of a POST names an existing column in \<^verbatim>\<open>rename\<close> and an existing
  column in \<^verbatim>\<open>rename_to\<close>, \<^verbatim>\<open>rename_column\<close> flashes the conflict message as an
  error and renders the form again. The migrator does not occur in the result, so no DDL
  is issued, and the data set (catalog and cache, hence both columns) is returned
  unchanged.
\<close>

theorem rename_column_conflict_rejected:
  assumes "req_method req = POST"
    and "md_get_str (req_form req) ''rename'' \<in> set (map col_name (get_columns ds table))"
    and "md_get_str (req_form req) ''rename_to'' \<in> set (map col_name (get_columns ds table))"
  shows "rename_column migrate req table ds =
           ([(rename_conflict_message, ''danger'')], Render ''rename_column.html'', ds)"
proof -
  have "table \<in> dom (ds_database ds)"
    using assms(2) by (rule get_columns_in_dom)
  then show ?thesis
    using assms
    by (simp add: rename_column_def require_table_def rename_column_body_def
        get_request_data_def Let_def)
qed

theorem rename_column_conflict_rejected_witness:
  "rename_column reference_migrate (post_request [(''rename'', ''a''), (''rename_to'', ''b'')]) ''t''
     example_dataset =
   ([(rename_conflict_message, ''danger'')], Render ''rename_column.html'', example_dataset)
   \<and> map col_name (get_columns example_dataset ''t'') = [''a'', ''b'']"
  using rename_column_conflict_rejected
    [of "post_request [(''rename'', ''a''), (''rename_to'', ''b'')]" example_dataset "''t''" reference_migrate]
  by (simp add: post_request_def md_get_str_def get_columns_def example_dataset_def example_schema_def)

lemma get_indexes_in_dom:
  "x \<in> set (map idx_name (get_indexes ds table)) \<Longrightarrow> table \<in> dom (ds_database ds)"
  by (cases "ds_database ds table") (auto simp: get_indexes_def)

text \<open>
  C3. \<^verbatim>\<open>drop_index\<close> never drops an index. On a POST that names an index of the table,
  the handler looks \<^verbatim>\<open>_migrator\<close> up on the list of indexes, the lookup raises, the
  handler's \<^verbatim>\<open>except\<close> clause flashes the error, and the data set is returned as it was:
  the index is still there.
\<close>

theorem drop_index_existing_index_fails:
  assumes "req_method req = POST"
    and "md_get_str (req_form req) ''name'' \<in> set (map idx_name (get_indexes ds table))"
  shows "drop_index req table ds =
           ([(''Error attempting to drop index: '' @ py_repr ''list'' @
                '' object has no attribute '' @ py_repr ''_migrator'', ''danger'')],
            Render ''drop_index.html'', ds)"
proof -
  have "table \<in> dom (ds_database ds)"
    using assms(2) by (rule get_indexes_in_dom)
  then show ?thesis
    using assms
    by (simp add: drop_index_def require_table_def drop_index_body_def
        get_request_data_def list_migrator_attr_def Let_def)
qed

theorem drop_index_existing_index_fails_witness:
  "drop_index (post_request [(''name'', ''t_b'')]) ''t'' example_dataset =
     ([(''Error attempting to drop index: '' @ py_repr ''list'' @
          '' object has no attribute '' @ py_repr ''_migrator'', ''danger'')],
      Render ''drop_index.html'', example_dataset)
   \<and> map idx_name (get_indexes example_dataset ''t'') = [''t_b'']"
  using drop_index_existing_index_fails [of "post_request [(''name'', ''t_b'')]" example_dataset "''t''"]
  by (simp add: post_request_def md_get_str_def get_indexes_def example_dataset_def example_schema_def)

lemma add_column_success:
  assumes "add_column migrate req table ds = (fl, Redirect ep, ds')"
  shows "(\<exists>col. migrate (AddColumn table (md_get_str (get_request_data req) ''name'') col)
                   (ds_database ds) = Inr (ds_database ds'))
         \<and> ds_models ds' table = ds_database ds' table"
  using assms
  by (auto simp: add_column_def require_table_def add_column_body_def update_cache_def Let_def
      split: if_splits sum.splits option.splits)

lemma drop_column_success:
  assumes "drop_column migrate req table ds = (fl, Redirect ep, ds')"
  shows "migrate (DropColumn table (md_get_str (get_request_data req) ''name''))
                   (ds_database ds) = Inr (ds_database ds')
         \<and> ds_models ds' table = ds_database ds' table"
  using assms
  by (auto simp: drop_column_def require_table_def drop_column_body_def update_cache_def Let_def
      split: if_splits sum.splits option.splits)

lemma rename_column_success:
  assumes "rename_column migrate req table ds = (fl, Redirect ep, ds')"
  shows "migrate (RenameColumn table (md_get_str (get_request_data req) ''rename'')
                    (md_get_str (get_request_data req) ''rename_to''))
                   (ds_database ds) = Inr (ds_database ds')
         \<and> ds_models ds' table = ds_database ds' table"
  using assms
  by (auto simp: rename_column_def require_table_def rename_column_body_def update_cache_def Let_def
      split: if_splits sum.splits option.splits)

lemma add_index_success:
  assumes "add_index migrate req table ds = (fl, Redirect ep, ds')"
  shows "migrate (AddIndex table (md_getlist (get_request_data req) ''indexed_columns'')
                    (truthy (md_get (get_request_data req) ''unique'')))
                   (ds_database ds) = Inr (ds_database ds')
         \<and> ds_models ds' = ds_models ds"
  using assms
  by (auto simp: add_index_def require_table_def add_index_body_def Let_def
      split: if_splits sum.splits option.splits)

lemma add_column_example:
  "add_column reference_migrate add_column_request ''t'' example_dataset =
     ([(''Column \"age\" was added successfully!'', ''success'')], Redirect ''table_structure'',
      after_add_column)"
  by (simp add: add_column_def require_table_def add_column_body_def Let_def add_column_request_def
      post_request_def example_dataset_def get_request_data_def md_get_str_def md_get_def truthy_def
      column_mapping_def update_cache_def age_column_def after_add_column_def)

lemma drop_column_example:
  "drop_column reference_migrate (post_request [(''name'', ''b'')]) ''t'' example_dataset =
     ([(''Column \"b\" was dropped successfully!'', ''success'')], Redirect ''table_structure'',
      after_drop_column)"
  by (simp add: drop_column_def require_table_def drop_column_body_def Let_def
      post_request_def example_dataset_def get_request_data_def md_get_str_def
      update_cache_def get_columns_def example_schema_def after_drop_column_def)

lemma rename_column_example:
  "rename_column reference_migrate (post_request [(''rename'', ''b''), (''rename_to'', ''c'')]) ''t''
      example_dataset =
     ([(''Column \"b\" was renamed successfully!'', ''success'')], Redirect ''table_structure'',
      after_rename_column)"
  by (simp add: rename_column_def require_table_def rename_column_body_def Let_def
      post_request_def example_dataset_def get_request_data_def md_get_str_def
      update_cache_def get_columns_def example_schema_def after_rename_column_def)

lemma add_index_example:
  "add_index reference_migrate add_index_request ''t'' example_dataset =
     ([(''Index created successfully.'', ''success'')], Redirect ''table_structure'',
      after_add_index)"
  by (simp add: add_index_def require_table_def add_index_body_def Let_def add_index_request_def
      post_request_def example_dataset_def get_request_data_def md_getlist_def md_get_def truthy_def
      new_index_def after_add_index_def)

text \<open>
  C1, as the claim states it, fails for \<^verbatim>\<open>add_index\<close>: starting from a cache that agrees
  with the catalog, a successful \<^verbatim>\<open>add_index\<close> leaves the cached entry of the table
  different from the catalog entry, because the handler never calls
  \<^verbatim>\<open>update_cache\<close>.
\<close>

theorem add_index_leaves_cache_stale:
  "fst (snd (add_index reference_migrate add_index_request ''t'' example_dataset))
     = Redirect ''table_structure''
   \<and> ds_models example_dataset ''t'' = ds_database example_dataset ''t''
   \<and> ds_models (snd (snd (add_index reference_migrate add_index_request ''t'' example_dataset))) ''t''
     \<noteq> ds_database (snd (snd (add_index reference_migrate add_index_request ''t'' example_dataset))) ''t''"
  by (simp add: add_index_example)
     (simp add: example_dataset_def example_schema_def new_index_def after_add_index_def)

text \<open>
  C1, amended. A handler succeeds when it answers with a redirect. When \<^verbatim>\<open>add_column\<close>,
  \<^verbatim>\<open>drop_column\<close> or \<^verbatim>\<open>rename_column\<close> succeeds, the catalog of the returned data set
  is the one the migrator produced and the cached entry of the table equals its catalog
  entry: the cache was rebuilt after the change and before the handler returned. When
  \<^verbatim>\<open>add_index\<close> succeeds, the catalog is the migrated one and the cache is exactly what
  it was before; the index listing is read from the catalog, not from the cache, so it
  shows the migrated indexes all the same.
\<close>

theorem structural_mutation_cache:
  "(add_column migrate req table ds = (fl, Redirect ep, ds') \<longrightarrow>
      (\<exists>col. migrate (AddColumn table (md_get_str (get_request_data req) ''name'') col)
                (ds_database ds) = Inr (ds_database ds'))
      \<and> ds_models ds' table = ds_database ds' table)
   \<and> (drop_column migrate req table ds = (fl, Redirect ep, ds') \<longrightarrow>
      migrate (DropColumn table (md_get_str (get_request_data req) ''name''))
        (ds_database ds) = Inr (ds_database ds')
      \<and> ds_models ds' table = ds_database ds' table)
   \<and> (rename_column migrate req table ds = (fl, Redirect ep, ds') \<longrightarrow>
      migrate (RenameColumn table (md_get_str (get_request_data req) ''rename'')
                 (md_get_str (get_request_data req) ''rename_to''))
        (ds_database ds) = Inr (ds_database ds')
      \<and> ds_models ds' table = ds_database ds' table)
   \<and> (add_index migrate req table ds = (fl, Redirect ep, ds') \<longrightarrow>
      migrate (AddIndex table (md_getlist (get_request_data req) ''indexed_columns'')
                 (truthy (md_get (get_request_data req) ''unique'')))
        (ds_database ds) = Inr (ds_database ds')
      \<and> ds_models ds' = ds_models ds
      \<and> get_indexes ds' table =
          (case ds_database ds' table of None \<Rightarrow> [] | Some s \<Rightarrow> tbl_indexes s))"
  using add_column_success [of migrate req table ds fl ep ds']
    drop_column_success [of migrate req table ds fl ep ds']
    rename_column_success [of migrate req table ds fl ep ds']
    add_index_success [of migrate req table ds fl ep ds']
  by (simp add: get_indexes_def)

theorem structural_mutation_cache_witness:
  "add_column reference_migrate add_column_request ''t'' example_dataset =
     ([(''Column \"age\" was added successfully!'', ''success'')], Redirect ''table_structure'',
      after_add_column)
   \<and> ds_models after_add_column ''t'' = ds_database after_add_column ''t''
   \<and> age_column \<in> set (get_columns after_add_column ''t'')
   \<and> drop_column reference_migrate (post_request [(''name'', ''b'')]) ''t'' example_dataset =
     ([(''Column \"b\" was dropped successfully!'', ''success'')], Redirect ''table_structure'',
      after_drop_column)
   \<and> ds_models after_drop_column ''t'' = ds_database after_drop_column ''t''
   \<and> rename_column reference_migrate (post_request [(''rename'', ''b''), (''rename_to'', ''c'')]) ''t''
      example_dataset =
     ([(''Column \"b\" was renamed successfully!'', ''success'')], Redirect ''table_structure'',
      after_rename_column)
   \<and> ds_models after_rename_column ''t'' = ds_database after_rename_column ''t''
   \<and> add_index reference_migrate add_index_request ''t'' example_dataset =
     ([(''Index created successfully.'', ''success'')], Redirect ''table_structure'',
      after_add_index)
   \<and> ds_models after_add_index = ds_models example_dataset
   \<and> get_indexes after_add_index ''t'' = tbl_indexes example_schema @ [new_index]"
proof -
  have "ds_models after_add_column ''t'' = ds_database after_add_column ''t''"
    using structural_mutation_cache [of reference_migrate add_column_request "''t''" example_dataset
      "[(''Column \"age\" was added successfully!'', ''success'')]" "''table_structure''"
      after_add_column, THEN conjunct1] add_column_example
    by simp
  moreover have "ds_models after_drop_column ''t'' = ds_database after_drop_column ''t''"
    using structural_mutation_cache [of reference_migrate "post_request [(''name'', ''b'')]" "''t''"
      example_dataset "[(''Column \"b\" was dropped successfully!'', ''success'')]"
      "''table_structure''" after_drop_column, THEN conjunct2, THEN conjunct1] drop_column_example
    by simp
  moreover have "ds_models after_rename_column ''t'' = ds_database after_rename_column ''t''"
    using structural_mutation_cache [of reference_migrate
      "post_request [(''rename'', ''b''), (''rename_to'', ''c'')]" "''t''"
      example_dataset "[(''Column \"b\" was renamed successfully!'', ''success'')]"
      "''table_structure''" after_rename_column, THEN conjunct2, THEN conjunct2, THEN conjunct1]
      rename_column_example
    by simp
  moreover have "ds_models after_add_index = ds_models example_dataset"
    using structural_mutation_cache [of reference_migrate add_index_request "''t''" example_dataset
      "[(''Index created successfully.'', ''success'')]" "''table_structure''" after_add_index,
      THEN conjunct2, THEN conjunct2, THEN conjunct2] add_index_example
    by simp
  moreover have "age_column \<in> set (get_columns after_add_column ''t'')"
    by (simp add: after_add_column_def get_columns_def)
  moreover have "get_indexes after_add_index ''t'' = tbl_indexes example_schema @ [new_index]"
    by (simp add: after_add_index_def get_indexes_def)
  ultimately show ?thesis
    using add_column_example drop_column_example rename_column_example add_index_example
    by simp
qed

subsection \<open>Pagination\<close>

lemma py_int_million: "py_isdigit ''1000000'' \<and> py_int ''1000000'' = Inr 1000000"
  by (simp add: py_isdigit_def py_isdigit_char_def py_int_def ascii_digit_def)

lemma ceil_div_is_ceiling: "ceil_div a b = \<lceil>real_of_int a / real_of_int b\<rceil>"
proof -
  have "\<lfloor>real_of_int (- a) / real_of_int b\<rfloor> = (- a) div b"
    by (rule floor_divide_of_int_eq)
  then show ?thesis
    unfolding ceil_div_def ceiling_def by simp
qed

lemma table_content_page_range:
  assumes "table_content_page page total_rows rows_per_page = Inr (p, tp)"
  shows "tp = max 1 \<lceil>real total_rows / real_of_int rows_per_page\<rceil> \<and> 1 \<le> p \<and> p \<le> tp"
  using assms
  by (auto simp: table_content_page_def Let_def ceil_div_is_ceiling split: sum.splits if_splits)

lemma table_content_page_example:
  "table_content_page (Some ''0'') 125 50 = Inr (1, 3)
   \<and> table_content_page (Some ''-2'') 125 50 = Inr (1, 3)
   \<and> table_content_page (Some ''last'') 125 50 = Inr (3, 3)"
  by (simp add: table_content_page_def py_isdigit_def py_isdigit_char_def py_int_def ascii_digit_def
      ceil_div_def)

text \<open>
  C5. The page \<^verbatim>\<open>last\<close> is read as page 1000000 and then clamped, so it resolves to the
  smaller of 1000000 and the number of pages: on a table of more than a million pages it
  is not the last page. With the default page size of 50 and 50000050 rows there are
  1000001 pages and \<^verbatim>\<open>last\<close> shows page 1000000.
\<close>

theorem last_page_is_capped:
  assumes "rows_per_page \<noteq> 0"
  shows "table_content_page (Some ''last'') total_rows rows_per_page =
           Inr (min 1000000 (max 1 (ceil_div (int total_rows) rows_per_page)),
                max 1 (ceil_div (int total_rows) rows_per_page))"
  using assms py_int_million
  by (simp add: table_content_page_def Let_def min_def max_def)

theorem last_page_is_capped_witness:
  "(50::int) \<noteq> 0
   \<and> table_content_page (Some ''last'') 50000050 50 = Inr (1000000, 1000001)"
  using last_page_is_capped [of 50 50000050]
  by (simp add: ceil_div_def)

subsection \<open>Primary-key codec\<close>





lemma key_strings_present:
  "set fs \<subseteq> dom r \<Longrightarrow> key_strings r fs = Inr (map (\<lambda>k. py_str (the (r k))) fs)"
  by (induction fs) auto

lemma key_strings_Inr_dom:
  "key_strings r fs = Inr vs \<Longrightarrow> set fs \<subseteq> dom r"
  by (induction fs arbitrary: vs) (auto split: option.splits sum.splits)

lemma key_strings_missing:
  "\<not> set fs \<subseteq> dom r \<Longrightarrow> \<exists>e. key_strings r fs = Inl e"
  using key_strings_Inr_dom [of r fs] by (cases "key_strings r fs") auto

lemma encode_pk_composite_present:
  "set fs \<subseteq> dom r \<Longrightarrow>
     encode_pk r (CompositeKey fs) = Inr (PyStr (py_join '':::'' (map (\<lambda>k. py_str (the (r k))) fs)))"
  by (simp add: encode_pk_def key_strings_present)

lemma encode_pk_composite_missing:
  "\<not> set fs \<subseteq> dom r \<Longrightarrow> encode_pk r (CompositeKey fs) = Inr (PyStr ''__uneditable__'')"
  using key_strings_missing [of fs r] by (auto simp: encode_pk_def)

text \<open>
  C2, as the claim states it, fails: a key field whose string form contains the delimiter
  is joined like any other. The token is not the sentinel, and it is the token of a
  different key as well.
\<close>

theorem encode_pk_joins_delimiter:
  "encode_pk (key_row ''x:::y'' ''z'') (CompositeKey [''a'', ''b'']) = Inr (PyStr ''x:::y:::z'')
   \<and> encode_pk (key_row ''x'' ''y:::z'') (CompositeKey [''a'', ''b'']) = Inr (PyStr ''x:::y:::z'')"
  by (simp add: encode_pk_def key_row_def)

text \<open>
  C2, amended. For a composite key \<^verbatim>\<open>encode_pk\<close> gives the sentinel
  \<^verbatim>\<open>__uneditable__\<close> exactly when reading a key field from the row raises, that is when
  the row lacks one of the key fields. Otherwise it gives the string forms of the key
  fields joined by \<^verbatim>\<open>:::\<close>, whatever characters they contain.
\<close>

theorem encode_pk_sentinel:
  "(set fs \<subseteq> dom r \<longrightarrow>
      encode_pk r (CompositeKey fs) = Inr (PyStr (py_join '':::'' (map (\<lambda>k. py_str (the (r k))) fs))))
   \<and> (\<not> set fs \<subseteq> dom r \<longrightarrow> encode_pk r (CompositeKey fs) = Inr (PyStr ''__uneditable__''))"
  using encode_pk_composite_present [of fs r] encode_pk_composite_missing [of fs r] by blast

theorem encode_pk_sentinel_witness:
  "set [''a'', ''b''] \<subseteq> dom (key_row ''x:::y'' ''z'')
   \<and> encode_pk (key_row ''x:::y'' ''z'') (CompositeKey [''a'', ''b'']) = Inr (PyStr ''x:::y:::z'')
   \<and> \<not> set [''a'', ''c''] \<subseteq> dom (key_row ''x'' ''y'')
   \<and> encode_pk (key_row ''x'' ''y'') (CompositeKey [''a'', ''c'']) = Inr (PyStr ''__uneditable__'')"
proof -
  have p: "set [''a'', ''b''] \<subseteq> dom (key_row ''x:::y'' ''z'')"
    by (simp add: key_row_def)
  have m: "\<not> set [''a'', ''c''] \<subseteq> dom (key_row ''x'' ''y'')"
    by (simp add: key_row_def)
  have "encode_pk (key_row ''x:::y'' ''z'') (CompositeKey [''a'', ''b'']) = Inr (PyStr ''x:::y:::z'')"
    using encode_pk_sentinel [of "[''a'', ''b'']" "key_row ''x:::y'' ''z''", THEN conjunct1] p
    by (simp add: key_row_def)
  moreover
  have "encode_pk (key_row ''x'' ''y'') (CompositeKey [''a'', ''c'']) = Inr (PyStr ''__uneditable__'')"
    using encode_pk_sentinel [of "[''a'', ''c'']" "key_row ''x'' ''y''", THEN conjunct2] m
    by blast
  ultimately show ?thesis using p m by blast
qed












subsection \<open>Value codec\<close>

lemma structured_messages_mem:
  "''Column does not allow NULL values.'' \<in> structured_messages"
  "''Value is not a number.'' \<in> structured_messages"
  "''Value is not a numeric/real.'' \<in> structured_messages"
  "''Value must be 1, 0, true, false, t or f.'' \<in> structured_messages"
  "''Value must be base64-encoded binary data.'' \<in> structured_messages"
  by (simp_all add: structured_messages_def)

lemma minimal_validate_field_cases:
  "(\<exists>value. minimal_validate_field env field raw = (value, None))
   \<or> (\<exists>value msg. minimal_validate_field env field raw = (value, Some msg)
        \<and> (msg \<in> structured_messages \<or> (\<exists>v. db_value env field v = Inl msg)))"
  unfolding minimal_validate_field_def
  by (auto split: sum.splits simp: structured_messages_mem)

lemma minimal_validate_field_null:
  assumes "py_strip (py_lower raw) = ''null''"
  shows "minimal_validate_field env field raw =
     (if fld_null field then (PyNone, None)
      else (PyStr ''NULL'', Some ''Column does not allow NULL values.''))"
  using assms by (simp add: minimal_validate_field_def)

lemma minimal_validate_field_value:
  assumes "minimal_validate_field env field raw = (value, None)"
  shows "value = PyNone
     \<or> (fld_class field = BooleanField \<and> (\<exists>b. value = PyBool b))
     \<or> (fld_class field = BlobField \<and> (\<exists>bs. value = PyBytes bs \<and> b64decode_call env raw = Inr bs))
     \<or> (fld_class field \<noteq> BooleanField \<and> fld_class field \<noteq> BlobField \<and> value = PyStr raw)"
  using assms unfolding minimal_validate_field_def
  by (auto split: sum.splits if_splits simp: is_integer_field_def)

text \<open>
  C8. Whatever the calls outside the file do (return or raise), \<^verbatim>\<open>minimal_validate_field\<close>
  returns a pair: either a value and no error, or a value and a message that is one of
  the codec's own messages or the message of the exception the storage adapter raised.
  A value returned without error is NULL, a boolean for a boolean field, the decoded
  bytes for a blob field, and the raw text otherwise. Raw text that is \<^verbatim>\<open>null\<close> after
  lower-casing and stripping gives NULL without error on a nullable field, and on a field
  that is not nullable the returned pair carries the not-nullable message.
\<close>

theorem minimal_validate_field_total:
  "((\<exists>value. minimal_validate_field env field raw = (value, None))
    \<or> (\<exists>value msg. minimal_validate_field env field raw = (value, Some msg)
         \<and> (msg \<in> structured_messages \<or> (\<exists>v. db_value env field v = Inl msg))))
   \<and> (minimal_validate_field env field raw = (value, None) \<longrightarrow>
        value = PyNone
        \<or> (fld_class field = BooleanField \<and> (\<exists>b. value = PyBool b))
        \<or> (fld_class field = BlobField
            \<and> (\<exists>bs. value = PyBytes bs \<and> b64decode_call env raw = Inr bs))
        \<or> (fld_class field \<noteq> BooleanField \<and> fld_class field \<noteq> BlobField \<and> value = PyStr raw))
   \<and> (py_strip (py_lower raw) = ''null'' \<and> fld_null field \<longrightarrow>
        minimal_validate_field env field raw = (PyNone, None))
   \<and> (py_strip (py_lower raw) = ''null'' \<and> \<not> fld_null field \<longrightarrow>
        minimal_validate_field env field raw =
          (PyStr ''NULL'', Some ''Column does not allow NULL values.''))"
  using minimal_validate_field_cases [of env field raw]
    minimal_validate_field_value [of env field raw "value"]
    minimal_validate_field_null [of raw env field]
  by presburger

lemma null_literal_example: "py_strip (py_lower '' NuLL  '') = ''null''"
  by (simp add: py_strip_def py_lower_def py_lower_char_def py_isspace_def upper_case_def
      lower_case_def)

theorem minimal_validate_field_total_witness:
  "py_strip (py_lower '' NuLL  '') = ''null''
   \<and> minimal_validate_field reference_adapters nullable_text_field '' NuLL  '' = (PyNone, None)
   \<and> minimal_validate_field reference_adapters bool_field '' NuLL  ''
       = (PyStr ''NULL'', Some ''Column does not allow NULL values.'')
   \<and> minimal_validate_field reference_adapters bool_field ''T'' = (PyBool True, None)
   \<and> minimal_validate_field reference_adapters bool_field ''maybe''
       = (PyStr ''maybe'', Some ''Value must be 1, 0, true, false, t or f.'')"
proof -
  have n: "fld_null nullable_text_field" and b: "\<not> fld_null bool_field"
    by (simp_all add: nullable_text_field_def bool_field_def)
  have "minimal_validate_field reference_adapters nullable_text_field '' NuLL  '' = (PyNone, None)"
    using minimal_validate_field_total [of reference_adapters nullable_text_field "'' NuLL  ''",
        THEN conjunct2, THEN conjunct2, THEN conjunct1] null_literal_example n
    by blast
  moreover
  have "minimal_validate_field reference_adapters bool_field '' NuLL  ''
       = (PyStr ''NULL'', Some ''Column does not allow NULL values.'')"
    using minimal_validate_field_total [of reference_adapters bool_field "'' NuLL  ''",
        THEN conjunct2, THEN conjunct2, THEN conjunct2] null_literal_example b
    by blast
  moreover
  have t: "minimal_validate_field reference_adapters bool_field ''T'' = (PyBool True, None)"
    by (simp add: minimal_validate_field_def bool_field_def reference_adapters_def
        is_integer_field_def boolean_tokens_def py_strip_def py_lower_def py_lower_char_def
        py_isspace_def upper_case_def lower_case_def)
  moreover
  have "fld_class bool_field = BooleanField \<and> (\<exists>b. PyBool True = PyBool b)"
    using minimal_validate_field_total [of reference_adapters bool_field "''T''" "PyBool True",
        THEN conjunct2, THEN conjunct1] t
    by simp
  moreover
  have "minimal_validate_field reference_adapters bool_field ''maybe''
       = (PyStr ''maybe'', Some ''Value must be 1, 0, true, false, t or f.'')"
    by (simp add: minimal_validate_field_def bool_field_def reference_adapters_def
        is_integer_field_def boolean_tokens_def py_strip_def py_lower_def py_lower_char_def
        py_isspace_def upper_case_def lower_case_def)
  ultimately show ?thesis
    using null_literal_example by blast
qed

subsection \<open>Row access\<close>

lemma insert_col_dict_fold:
  assumes "dom d0 \<subseteq> col_name ` A" and "\<And>k c. d0 k = Some c \<Longrightarrow> col_name c = k"
  shows "dom (fold (\<lambda>column d. if fld_class (field_of env column) = AutoField then d
                                else d(col_name column \<mapsto> column)) columns d0)
           \<subseteq> col_name ` (A \<union> set columns)
         \<and> (\<forall>k c. fold (\<lambda>column d. if fld_class (field_of env column) = AutoField then d
                                else d(col_name column \<mapsto> column)) columns d0 k = Some c
                \<longrightarrow> col_name c = k)"
  using assms
proof (induction columns arbitrary: d0 A)
  case Nil
  then show ?case by auto
next
  case (Cons a columns)
  let ?d1 = "if fld_class (field_of env a) = AutoField then d0 else d0(col_name a \<mapsto> a)"
  have d: "dom ?d1 \<subseteq> col_name ` (insert a A)"
    using Cons.prems(1) by auto
  have k: "\<And>k c. ?d1 k = Some c \<Longrightarrow> col_name c = k"
    using Cons.prems(2) by (auto split: if_splits)
  have "insert a A \<union> set columns = A \<union> set (a # columns)"
    by auto
  with Cons.IH [of ?d1 "insert a A", OF d k] show ?case
    by simp
qed

lemma insert_col_dict_dom: "dom (insert_col_dict env columns) \<subseteq> col_name ` set columns"
  using insert_col_dict_fold [of Map.empty "{}" env columns] by (simp add: insert_col_dict_def)

lemma insert_col_dict_keyed: "insert_col_dict env columns k = Some c \<Longrightarrow> col_name c = k"
  using insert_col_dict_fold [of Map.empty "{}" env columns] by (simp add: insert_col_dict_def)

lemma sub_step: "A \<subseteq> B \<union> D \<Longrightarrow> B \<subseteq> C \<union> D \<Longrightarrow> A \<subseteq> C \<union> D"
  by auto

lemma form_entry_touched:
  assumes "\<And>k c. col_dict k = Some c \<Longrightarrow> col_name c = k"
  shows "fs_edited (form_entry env col_dict item st) \<subseteq> fs_edited st \<union> dom col_dict
       \<and> dom (fs_row (form_entry env col_dict item st)) \<subseteq> dom (fs_row st) \<union> dom col_dict
       \<and> dom (fs_errors (form_entry env col_dict item st)) \<subseteq> dom (fs_errors st) \<union> dom col_dict
       \<and> dom (fs_values (form_entry env col_dict item st)) \<subseteq> dom (fs_values st) \<union> dom col_dict"
proof (cases item)
  case (Pair key raw)
  show ?thesis
  proof (cases "col_dict key")
    case None
    with Pair show ?thesis by (simp add: form_entry_def)
  next
    case (Some column)
    then have "col_name column = key" by (rule assms)
    with Some Pair show ?thesis
      by (auto simp: form_entry_def Let_def split: prod.splits option.splits if_splits)
  qed
qed

lemma form_loop_touched:
  assumes "\<And>k c. col_dict k = Some c \<Longrightarrow> col_name c = k"
  shows "fs_edited (form_loop env col_dict items st) \<subseteq> fs_edited st \<union> dom col_dict
       \<and> dom (fs_row (form_loop env col_dict items st)) \<subseteq> dom (fs_row st) \<union> dom col_dict
       \<and> dom (fs_errors (form_loop env col_dict items st)) \<subseteq> dom (fs_errors st) \<union> dom col_dict
       \<and> dom (fs_values (form_loop env col_dict items st)) \<subseteq> dom (fs_values st) \<union> dom col_dict"
proof (induction items arbitrary: st)
  case Nil
  show ?case by (simp add: form_loop_def)
next
  case (Cons item items)
  let ?st = "form_entry env col_dict item st"
  have step: "form_loop env col_dict (item # items) st = form_loop env col_dict items ?st"
    by (simp add: form_loop_def)
  have entry: "fs_edited ?st \<subseteq> fs_edited st \<union> dom col_dict
       \<and> dom (fs_row ?st) \<subseteq> dom (fs_row st) \<union> dom col_dict
       \<and> dom (fs_errors ?st) \<subseteq> dom (fs_errors st) \<union> dom col_dict
       \<and> dom (fs_values ?st) \<subseteq> dom (fs_values st) \<union> dom col_dict"
    by (rule form_entry_touched) (rule assms)
  note ih = Cons.IH [of ?st]
  have "fs_edited (form_loop env col_dict items ?st) \<subseteq> fs_edited st \<union> dom col_dict"
    using ih [THEN conjunct1] entry [THEN conjunct1] by (rule sub_step)
  moreover
  have "dom (fs_row (form_loop env col_dict items ?st)) \<subseteq> dom (fs_row st) \<union> dom col_dict"
    using ih [THEN conjunct2, THEN conjunct1] entry [THEN conjunct2, THEN conjunct1]
    by (rule sub_step)
  moreover
  have "dom (fs_errors (form_loop env col_dict items ?st)) \<subseteq> dom (fs_errors st) \<union> dom col_dict"
    using ih [THEN conjunct2, THEN conjunct2, THEN conjunct1]
      entry [THEN conjunct2, THEN conjunct2, THEN conjunct1]
    by (rule sub_step)
  moreover
  have "dom (fs_values (form_loop env col_dict items ?st)) \<subseteq> dom (fs_values st) \<union> dom col_dict"
    using ih [THEN conjunct2, THEN conjunct2, THEN conjunct2]
      entry [THEN conjunct2, THEN conjunct2, THEN conjunct2]
    by (rule sub_step)
  ultimately show ?case
    unfolding step by simp
qed

lemma form_entry_unknown:
  "col_dict (fst item) = None \<Longrightarrow> form_entry env col_dict item st = st"
  by (cases item) (simp add: form_entry_def)

lemma form_loop_ignores_unknown:
  assumes "\<And>k. k \<in> dom col_dict \<Longrightarrow> P k"
  shows "form_loop env col_dict (filter (\<lambda>kv. P (fst kv)) items) st = form_loop env col_dict items st"
proof (induction items arbitrary: st)
  case Nil
  show ?case by simp
next
  case (Cons item items)
  show ?case
  proof (cases "P (fst item)")
    case True
    with Cons.IH show ?thesis by (simp add: form_loop_def)
  next
    case False
    with assms have "col_dict (fst item) = None" by auto
    then have "form_entry env col_dict item st = st"
      by (rule form_entry_unknown)
    with False Cons.IH show ?thesis by (simp add: form_loop_def)
  qed
qed

lemma md_items_filter:
  "md_items (filter (\<lambda>kv. P (fst kv)) d) = filter (\<lambda>kv. P (fst kv)) (md_items d)"
proof (induction d rule: md_items.induct)
  case 1
  show ?case by simp
next
  case (2 k v d)
  have comm: "filter (\<lambda>kv. fst kv \<noteq> k) (filter (\<lambda>kv. P (fst kv)) d)
        = filter (\<lambda>kv. P (fst kv)) (filter (\<lambda>kv. fst kv \<noteq> k) d)"
    by (simp add: conj_commute)
  show ?case
  proof (cases "P k")
    case True
    with 2 comm show ?thesis by simp
  next
    case False
    have "filter (\<lambda>kv. P (fst kv)) (filter (\<lambda>kv. fst kv \<noteq> k) d) = filter (\<lambda>kv. P (fst kv)) d"
      using False by (auto intro: filter_cong)
    with False 2 show ?thesis by simp
  qed
qed

lemma form_entry_errors_dom:
  "dom (fs_errors (form_entry env col_dict item st))
     = dom (fs_errors st) \<union> (if fails env col_dict item then {fst item} else {})"
  by (cases item)
     (auto simp: form_entry_def fails_def is_error_def Let_def
        split: option.splits prod.splits if_splits)

lemma form_loop_errors_dom:
  "dom (fs_errors (form_loop env col_dict items st))
     = dom (fs_errors st) \<union> fst ` set (filter (fails env col_dict) items)"
proof (induction items arbitrary: st)
  case Nil
  show ?case by (simp add: form_loop_def)
next
  case (Cons item items)
  have step: "form_loop env col_dict (item # items) st
                = form_loop env col_dict items (form_entry env col_dict item st)"
    by (simp add: form_loop_def)
  show ?case
    unfolding step Cons.IH form_entry_errors_dom by auto
qed

lemma form_entry_errors_other:
  "fst item \<noteq> k \<Longrightarrow> fs_errors (form_entry env col_dict item st) k = fs_errors st k"
  by (cases item)
     (auto simp: form_entry_def Let_def split: option.splits prod.splits if_splits)

lemma form_loop_errors_other:
  "k \<notin> fst ` set items \<Longrightarrow> fs_errors (form_loop env col_dict items st) k = fs_errors st k"
proof (induction items arbitrary: st)
  case Nil
  show ?case by (simp add: form_loop_def)
next
  case (Cons item items)
  have step: "form_loop env col_dict (item # items) st
                = form_loop env col_dict items (form_entry env col_dict item st)"
    by (simp add: form_loop_def)
  from Cons.prems have "fst item \<noteq> k" and "k \<notin> fst ` set items"
    by auto
  then show ?case
    unfolding step by (simp add: Cons.IH form_entry_errors_other)
qed

lemma form_entry_errors_here:
  assumes "col_dict k = Some column"
    and "minimal_validate_field env (field_of env column) raw = (value, Some msg)"
    and "msg \<noteq> []"
  shows "fs_errors (form_entry env col_dict (k, raw) st) k = Some msg"
  using assms by (simp add: form_entry_def Let_def)

lemma form_loop_errors_message:
  assumes "distinct (map fst items)" and "(k, raw) \<in> set items"
    and "col_dict k = Some column"
    and "minimal_validate_field env (field_of env column) raw = (value, Some msg)"
    and "msg \<noteq> []"
  shows "fs_errors (form_loop env col_dict items st) k = Some msg"
  using assms(1,2)
proof (induction items arbitrary: st)
  case Nil
  then show ?case by simp
next
  case (Cons item items)
  have step: "form_loop env col_dict (item # items) st
                = form_loop env col_dict items (form_entry env col_dict item st)"
    by (simp add: form_loop_def)
  show ?case
  proof (cases "item = (k, raw)")
    case True
    with Cons.prems(1) have "k \<notin> fst ` set items"
      by simp
    then have "fs_errors (form_loop env col_dict items (form_entry env col_dict item st)) k
                 = fs_errors (form_entry env col_dict item st) k"
      by (rule form_loop_errors_other)
    also have "\<dots> = Some msg"
      unfolding True using assms(3,4,5) by (rule form_entry_errors_here)
    finally show ?thesis
      unfolding step .
  next
    case False
    with Cons.prems have "(k, raw) \<in> set items" and "distinct (map fst items)"
      by auto
    then show ?thesis
      unfolding step using Cons.IH by blast
  qed
qed

lemma md_items_subset: "set (md_items d) \<subseteq> set d"
  by (induction d rule: md_items.induct) auto

lemma md_items_distinct: "distinct (map fst (md_items d))"
proof (induction d rule: md_items.induct)
  case 1
  show ?case by simp
next
  case (2 k v d)
  have "set (md_items (filter (\<lambda>kv. fst kv \<noteq> k) d)) \<subseteq> set (filter (\<lambda>kv. fst kv \<noteq> k) d)"
    by (rule md_items_subset)
  then have "k \<notin> fst ` set (md_items (filter (\<lambda>kv. fst kv \<noteq> k) d))"
    by auto
  with 2 show ?case by simp
qed

lemma get_columns_update_cache: "get_columns (update_cache table ds) t = get_columns ds t"
  by (simp add: get_columns_def update_cache_def)

lemma table_insert_errors:
  assumes "req_method req = POST" and "table \<in> dom (ds_database ds)"
    and "fs_errors (form_loop env (insert_col_dict env (get_columns ds table))
           (md_items (req_form req)) st0) \<noteq> Map.empty"
    and "st0 = empty_form_state\<lparr>fs_row :=
           (\<lambda>k. if k \<in> dom (insert_col_dict env (get_columns ds table)) then Some (PyStr []) else None)\<rparr>"
  shows "table_insert env eng req table ds rows =
           ([(''One or more errors prevented the row being inserted.'', ''danger'')],
            Render ''table_insert.html'',
            form_loop env (insert_col_dict env (get_columns ds table)) (md_items (req_form req)) st0,
            update_cache table ds, rows)"
  using assms
  by (simp add: table_insert_def table_insert_body_def Let_def get_columns_update_cache)

lemma people_col_dict:
  "insert_col_dict reference_adapters (get_columns people_dataset ''people'')
     = [''name'' \<mapsto> people_name_column]"
  by (simp add: insert_col_dict_def get_columns_def people_dataset_def people_schema_def
      people_id_column_def people_name_column_def reference_adapters_def reference_field_of_def
      py_lower_def py_lower_char_def upper_case_def lower_case_def)

lemma people_id_rejected:
  "fld_class (field_of reference_adapters people_id_column) = AutoField
   \<and> minimal_validate_field reference_adapters (field_of reference_adapters people_id_column) ''abc''
       = (PyStr ''abc'', Some ''Value is not a number.'')"
  by (simp add: minimal_validate_field_def reference_adapters_def reference_field_of_def
      people_id_column_def is_integer_field_def py_isdigit_def py_isdigit_char_def ascii_digit_def
      py_strip_def py_lower_def py_lower_char_def py_isspace_def upper_case_def lower_case_def)

lemma people_name_accepted:
  "minimal_validate_field reference_adapters (field_of reference_adapters people_name_column) ''x''
     = (PyStr ''x'', None)"
  by (simp add: minimal_validate_field_def reference_adapters_def reference_field_of_def
      people_name_column_def is_integer_field_def
      py_strip_def py_lower_def py_lower_char_def py_isspace_def upper_case_def lower_case_def)

lemma people_insert:
  "fst (snd (table_insert reference_adapters reference_engine auto_key_request ''people''
       people_dataset [])) = Redirect ''table_content''
   \<and> snd (snd (snd (snd (table_insert reference_adapters reference_engine auto_key_request
       ''people'' people_dataset [])))) = [name_row ''x'']"
proof -
  have tbl: "''people'' \<in> dom (ds_database people_dataset)"
    by (simp add: people_dataset_def)
  have items: "md_items (req_form auto_key_request) = [(''id'', ''abc''), (''name'', ''x'')]"
    and post: "req_method auto_key_request = POST"
    by (simp_all add: auto_key_request_def post_request_def)
  have loop: "form_loop reference_adapters [''name'' \<mapsto> people_name_column]
      [(''id'', ''abc''), (''name'', ''x'')] st
    = st\<lparr>fs_edited := insert ''name'' (fs_edited st),
         fs_row := (fs_row st)(''name'' \<mapsto> PyStr ''x''),
         fs_values := (fs_values st)(''name'' \<mapsto> PyStr ''x'')\<rparr>" for st
    by (simp add: form_loop_def form_entry_def people_name_accepted Let_def)
       (simp add: people_name_column_def)
  show ?thesis
    using tbl
    by (simp add: table_insert_def table_insert_body_def Let_def get_columns_update_cache
        people_col_dict items post loop empty_form_state_def reference_engine_def name_row_def)
qed

text \<open>
  C4, as the claim states it, fails for a value submitted for an auto-generated key: on a
  table whose column \<^verbatim>\<open>id\<close> is an \<^verbatim>\<open>AutoField\<close>, the codec rejects \<^verbatim>\<open>abc\<close> for
  \<^verbatim>\<open>id\<close>, and a form with \<^verbatim>\<open>id=abc\<close> and \<^verbatim>\<open>name=x\<close> is answered with the redirect of a
  successful insert and one new row, because \<^verbatim>\<open>table_insert\<close> leaves the \<^verbatim>\<open>AutoField\<close>
  columns out of \<^verbatim>\<open>col_dict\<close> and never validates what is sent for them.
\<close>

theorem table_insert_skips_auto_field:
  "snd (minimal_validate_field reference_adapters (field_of reference_adapters people_id_column)
       ''abc'') = Some ''Value is not a number.''
   \<and> fst (snd (table_insert reference_adapters reference_engine auto_key_request ''people''
       people_dataset [])) = Redirect ''table_content''
   \<and> snd (snd (snd (snd (table_insert reference_adapters reference_engine auto_key_request
       ''people'' people_dataset [])))) = [name_row ''x'']"
  using people_id_rejected people_insert by simp

text \<open>
  C4, amended. On a POST to \<^verbatim>\<open>table_insert\<close> in which some submitted pair fails (it
  names a column of the table that is not an \<^verbatim>\<open>AutoField\<close> and the codec returns a
  message that is not empty for its value), the handler flashes the error, renders the
  form again and returns the rows of the table unchanged. The result is the same for
  every engine, so no statement was executed. The dictionary \<^verbatim>\<open>errors\<close> has an entry
  for exactly the keys of the failing pairs, each with the message the codec returned for
  it.
\<close>

theorem table_insert_rejects_invalid:
  assumes "req_method req = POST" and "table \<in> dom (ds_database ds)"
    and "list_ex (fails env (insert_col_dict env (get_columns ds table))) (md_items (req_form req))"
  shows "\<exists>st. table_insert env eng req table ds rows =
            ([(''One or more errors prevented the row being inserted.'', ''danger'')],
             Render ''table_insert.html'', st, update_cache table ds, rows)
          \<and> table_insert env eng' req table ds rows = table_insert env eng req table ds rows
          \<and> dom (fs_errors st) =
              fst ` set (filter (fails env (insert_col_dict env (get_columns ds table)))
                           (md_items (req_form req)))
          \<and> (\<forall>k raw column value msg.
                (k, raw) \<in> set (md_items (req_form req))
                \<and> insert_col_dict env (get_columns ds table) k = Some column
                \<and> minimal_validate_field env (field_of env column) raw = (value, Some msg)
                \<and> msg \<noteq> []
                \<longrightarrow> fs_errors st k = Some msg)"
proof -
  let ?cd = "insert_col_dict env (get_columns ds table)"
  let ?items = "md_items (req_form req)"
  let ?st0 = "empty_form_state\<lparr>fs_row :=
           (\<lambda>k. if k \<in> dom ?cd then Some (PyStr []) else None)\<rparr>"
  let ?st = "form_loop env ?cd ?items ?st0"
  have dom_err: "dom (fs_errors ?st) = fst ` set (filter (fails env ?cd) ?items)"
    by (simp add: form_loop_errors_dom empty_form_state_def)
  from assms(3) obtain item where "item \<in> set ?items" and "fails env ?cd item"
    by (auto simp: list_ex_iff)
  then have "fst item \<in> dom (fs_errors ?st)"
    unfolding dom_err by auto
  then have nonempty: "fs_errors ?st \<noteq> Map.empty"
    by auto
  have res: "table_insert env e req table ds rows =
           ([(''One or more errors prevented the row being inserted.'', ''danger'')],
            Render ''table_insert.html'', ?st, update_cache table ds, rows)" for e
    using assms(1,2) nonempty by (rule table_insert_errors) simp
  have msgs: "fs_errors ?st k = Some msg"
    if "(k, raw) \<in> set ?items" and "?cd k = Some column"
      and "minimal_validate_field env (field_of env column) raw = (value, Some msg)"
      and "msg \<noteq> []" for k raw column "value" msg
    using md_items_distinct that by (rule form_loop_errors_message)
  show ?thesis
    using res [of eng] res [of eng'] dom_err msgs by (intro exI [of _ ?st]) auto
qed

lemma example_insert_col_dict:
  "insert_col_dict reference_adapters (get_columns example_dataset ''t'')
     = [''a'' \<mapsto> hd (tbl_columns example_schema), ''b'' \<mapsto> last (tbl_columns example_schema)]"
  by (simp add: insert_col_dict_def get_columns_def example_dataset_def example_schema_def
      reference_adapters_def reference_field_of_def py_lower_def py_lower_char_def
      upper_case_def lower_case_def)

lemma example_items:
  "md_items (req_form insert_request) = [(''b'', ''fine''), (''a'', ''null''), (''zz'', ''1'')]"
  by (simp add: insert_request_def post_request_def)

lemma example_null_fails:
  "minimal_validate_field reference_adapters
     (field_of reference_adapters (hd (tbl_columns example_schema))) ''null''
   = (PyStr ''NULL'', Some ''Column does not allow NULL values.'')"
  by (simp add: minimal_validate_field_def reference_adapters_def reference_field_of_def
      example_schema_def py_strip_def py_lower_def py_lower_char_def py_isspace_def
      upper_case_def lower_case_def)

lemma example_fails:
  "list_ex (fails reference_adapters (insert_col_dict reference_adapters
      (get_columns example_dataset ''t''))) (md_items (req_form insert_request))"
  unfolding example_insert_col_dict example_items
  by (simp add: fails_def example_null_fails is_error_def)

theorem table_insert_rejects_invalid_witness:
  "fst (snd (table_insert reference_adapters reference_engine insert_request ''t''
       example_dataset [])) = Render ''table_insert.html''
   \<and> snd (snd (snd (snd (table_insert reference_adapters reference_engine insert_request ''t''
       example_dataset [])))) = []
   \<and> fs_errors (fst (snd (snd (table_insert reference_adapters reference_engine insert_request ''t''
       example_dataset [])))) ''a'' = Some ''Column does not allow NULL values.''
   \<and> table_insert reference_adapters failing_engine insert_request ''t'' example_dataset []
       = table_insert reference_adapters reference_engine insert_request ''t'' example_dataset []"
proof -
  have post: "req_method insert_request = POST"
    by (simp add: insert_request_def post_request_def)
  have tbl: "''t'' \<in> dom (ds_database example_dataset)"
    by (simp add: example_dataset_def)
  from table_insert_rejects_invalid [OF post tbl example_fails,
      of reference_engine "[]" failing_engine]
  obtain st where
    res: "table_insert reference_adapters reference_engine insert_request ''t'' example_dataset [] =
            ([(''One or more errors prevented the row being inserted.'', ''danger'')],
             Render ''table_insert.html'', st, update_cache ''t'' example_dataset, [])"
    and same: "table_insert reference_adapters failing_engine insert_request ''t'' example_dataset []
       = table_insert reference_adapters reference_engine insert_request ''t'' example_dataset []"
    and msgs: "\<forall>k raw column value msg.
        (k, raw) \<in> set (md_items (req_form insert_request))
        \<and> insert_col_dict reference_adapters (get_columns example_dataset ''t'') k = Some column
        \<and> minimal_validate_field reference_adapters (field_of reference_adapters column) raw
            = (value, Some msg)
        \<and> msg \<noteq> []
        \<longrightarrow> fs_errors st k = Some msg"
    by blast
  have "fs_errors st ''a'' = Some ''Column does not allow NULL values.''"
    using msgs [rule_format, of "''a''" "''null''" "hd (tbl_columns example_schema)"
        "PyStr ''NULL''" "''Column does not allow NULL values.''"]
      example_null_fails
    by (simp add: example_items example_insert_col_dict)
  then show ?thesis
    using res same by simp
qed

lemma update_columns_col_dict:
  assumes "update_columns obj columns (shown, cd) = Inr (shown', cd')"
    and "dom cd \<subseteq> col_name ` A" and "\<And>k c. cd k = Some c \<Longrightarrow> col_name c = k"
  shows "dom cd' \<subseteq> col_name ` (A \<union> set columns) \<and> (\<forall>k c. cd' k = Some c \<longrightarrow> col_name c = k)"
  using assms
proof (induction columns arbitrary: shown cd A)
  case Nil
  then show ?case by auto
next
  case (Cons column columns)
  from Cons.prems(1) obtain v where
    rest: "update_columns obj columns
             (shown(col_name column \<mapsto> v), cd(col_name column \<mapsto> column)) = Inr (shown', cd')"
    by (auto split: option.splits sum.splits)
  have d: "dom (cd(col_name column \<mapsto> column)) \<subseteq> col_name ` (insert column A)"
    using Cons.prems(2) by auto
  have k: "\<And>k c. (cd(col_name column \<mapsto> column)) k = Some c \<Longrightarrow> col_name c = k"
    using Cons.prems(3) by (auto split: if_splits)
  have "insert column A \<union> set columns = A \<union> set (column # columns)"
    by auto
  with Cons.IH [OF rest d k] show ?case
    by simp
qed

lemma union3_subset:
  assumes "E \<subseteq> E0 \<union> D" and "R \<subseteq> R0 \<union> D" and "V \<subseteq> V0 \<union> D"
    and "E0 = {}" and "R0 = {}" and "V0 = {}" and "D \<subseteq> C"
  shows "E \<union> R \<union> V \<subseteq> C"
  using assms by auto

lemma form_loop_from_empty:
  assumes "\<And>k c. col_dict k = Some c \<Longrightarrow> col_name c = k"
    and "dom col_dict \<subseteq> C" and "fs_edited st0 = {}" and "fs_errors st0 = Map.empty"
    and "fs_values st0 = Map.empty"
  shows "fs_edited (form_loop env col_dict items st0)
         \<union> dom (fs_errors (form_loop env col_dict items st0))
         \<union> dom (fs_values (form_loop env col_dict items st0)) \<subseteq> C"
proof -
  note t = form_loop_touched [where col_dict = col_dict and env = env and items = items
      and st = st0, OF assms(1)]
  show ?thesis
  proof (rule union3_subset)
    show "fs_edited (form_loop env col_dict items st0) \<subseteq> fs_edited st0 \<union> dom col_dict"
      using t by (rule conjunct1)
    show "dom (fs_errors (form_loop env col_dict items st0)) \<subseteq> dom (fs_errors st0) \<union> dom col_dict"
      using t by simp
    show "dom (fs_values (form_loop env col_dict items st0)) \<subseteq> dom (fs_values st0) \<union> dom col_dict"
      using t by simp
    show "fs_edited st0 = {}" by (rule assms)
    show "dom (fs_errors st0) = {}" using assms(4) by simp
    show "dom (fs_values st0) = {}" using assms(5) by simp
    show "dom col_dict \<subseteq> C" by (rule assms)
  qed
qed

lemma table_insert_touched:
  assumes "table_insert env eng req table ds rows = (fl, resp, st, ds', rows')"
  shows "fs_edited st \<union> dom (fs_errors st) \<union> dom (fs_values st)
           \<subseteq> col_name ` set (get_columns ds table)"
proof -
  let ?cd = "insert_col_dict env (get_columns ds table)"
  let ?C = "col_name ` set (get_columns ds table)"
  let ?st0 = "empty_form_state\<lparr>fs_row :=
           (\<lambda>k. if k \<in> dom ?cd then Some (PyStr []) else None)\<rparr>"
  have loop: "fs_edited (form_loop env ?cd items ?st0)
         \<union> dom (fs_errors (form_loop env ?cd items ?st0))
         \<union> dom (fs_values (form_loop env ?cd items ?st0)) \<subseteq> ?C" for items
    by (rule form_loop_from_empty)
       (auto simp: insert_col_dict_keyed empty_form_state_def
          intro: subsetD [OF insert_col_dict_dom])
  have cases: "st = empty_form_state \<or> st = ?st0\<lparr>fs_edited := dom ?cd\<rparr>
      \<or> st = form_loop env ?cd (md_items (req_form req)) ?st0"
    using assms
    by (auto simp: table_insert_def table_insert_body_def Let_def get_columns_update_cache
        split: if_splits sum.splits)
  have "dom ?cd \<subseteq> ?C"
    by (rule insert_col_dict_dom)
  then have get: "fs_edited (?st0\<lparr>fs_edited := dom ?cd\<rparr>)
      \<union> dom (fs_errors (?st0\<lparr>fs_edited := dom ?cd\<rparr>))
      \<union> dom (fs_values (?st0\<lparr>fs_edited := dom ?cd\<rparr>)) \<subseteq> ?C"
    by (simp add: empty_form_state_def)
  have none: "fs_edited empty_form_state \<union> dom (fs_errors empty_form_state)
      \<union> dom (fs_values empty_form_state) \<subseteq> ?C"
    by (simp add: empty_form_state_def)
  from cases get none loop [of "md_items (req_form req)"] show ?thesis
    by (elim disjE) simp_all
qed

lemma table_update_state:
  assumes "table_update env eng table_pk req table pk ds rows = Inr (fl, resp, st, ds', rows')"
  shows "st = empty_form_state
     \<or> (\<exists>obj shown cd. update_columns obj (get_columns ds table) (Map.empty, Map.empty) = Inr (shown, cd)
           \<and> (st = empty_form_state\<lparr>fs_row := shown\<rparr>
               \<or> st = form_loop env cd (md_items (req_form req)) (empty_form_state\<lparr>fs_row := shown\<rparr>)))"
  using assms
  unfolding table_update_def table_update_body_def Let_def get_columns_update_cache
  by (auto split: if_splits sum.splits option.splits prod.splits)

lemma table_update_touched:
  assumes "table_update env eng table_pk req table pk ds rows = Inr (fl, resp, st, ds', rows')"
  shows "fs_edited st \<union> dom (fs_errors st) \<union> dom (fs_values st)
           \<subseteq> col_name ` set (get_columns ds table)"
proof -
  let ?C = "col_name ` set (get_columns ds table)"
  from table_update_state [OF assms] show ?thesis
  proof (elim disjE exE conjE)
    assume "st = empty_form_state"
    then show ?thesis by (simp add: empty_form_state_def)
  next
    fix obj shown cd
    assume "st = empty_form_state\<lparr>fs_row := shown\<rparr>"
    then show ?thesis by (simp add: empty_form_state_def)
  next
    fix obj shown cd
    assume uc: "update_columns obj (get_columns ds table) (Map.empty, Map.empty) = Inr (shown, cd)"
      and st: "st = form_loop env cd (md_items (req_form req)) (empty_form_state\<lparr>fs_row := shown\<rparr>)"
    have cd: "dom cd \<subseteq> col_name ` ({} \<union> set (get_columns ds table))
        \<and> (\<forall>k c. cd k = Some c \<longrightarrow> col_name c = k)"
      using uc by (rule update_columns_col_dict) simp_all
    show ?thesis
      unfolding st
      by (rule form_loop_from_empty) (use cd in \<open>auto simp: empty_form_state_def\<close>)
  qed
qed

lemma form_loop_md_items_filter:
  assumes "dom col_dict \<subseteq> C"
  shows "form_loop env col_dict (md_items (filter (\<lambda>kv. fst kv \<in> C) form)) st
           = form_loop env col_dict (md_items form) st"
proof -
  have "md_items (filter (\<lambda>kv. fst kv \<in> C) form) = filter (\<lambda>kv. fst kv \<in> C) (md_items form)"
    by (rule md_items_filter)
  moreover have "form_loop env col_dict (filter (\<lambda>kv. fst kv \<in> C) (md_items form)) st
      = form_loop env col_dict (md_items form) st"
    by (rule form_loop_ignores_unknown) (use assms in auto)
  ultimately show ?thesis by simp
qed

lemma table_insert_ignores_unknown:
  "table_insert env eng
     (req\<lparr>req_form := filter (\<lambda>kv. fst kv \<in> col_name ` set (get_columns ds table)) (req_form req)\<rparr>)
     table ds rows
   = table_insert env eng req table ds rows"
proof -
  have "form_loop env (insert_col_dict env (get_columns ds table))
          (md_items (filter (\<lambda>kv. fst kv \<in> col_name ` set (get_columns ds table)) (req_form req))) st
        = form_loop env (insert_col_dict env (get_columns ds table)) (md_items (req_form req)) st"
    for st
    by (rule form_loop_md_items_filter) (rule insert_col_dict_dom)
  then show ?thesis
    by (simp add: table_insert_def table_insert_body_def Let_def get_columns_update_cache)
qed

lemma update_loop_filter:
  assumes "update_columns obj columns (Map.empty, Map.empty) = Inr (shown, cd)"
  shows "form_loop env cd (md_items (filter (\<lambda>kv. fst kv \<in> col_name ` set columns) form)) st
           = form_loop env cd (md_items form) st"
proof (rule form_loop_md_items_filter)
  have "dom cd \<subseteq> col_name ` ({} \<union> set columns) \<and> (\<forall>k c. cd k = Some c \<longrightarrow> col_name c = k)"
    using assms by (rule update_columns_col_dict) simp_all
  then show "dom cd \<subseteq> col_name ` set columns" by simp
qed

lemma table_update_ignores_unknown:
  "table_update env eng table_pk
     (req\<lparr>req_form := filter (\<lambda>kv. fst kv \<in> col_name ` set (get_columns ds table)) (req_form req)\<rparr>)
     table pk ds rows
   = table_update env eng table_pk req table pk ds rows"
  unfolding table_update_def table_update_body_def Let_def get_columns_update_cache
  by (auto split: sum.splits option.splits prod.splits simp: update_loop_filter)

text \<open>
  C10. Whatever \<^verbatim>\<open>table_insert\<close> and \<^verbatim>\<open>table_update\<close> answer, the columns they marked
  as edited, the keys of their \<^verbatim>\<open>errors\<close> and the columns of the values they validated
  for writing are columns of the table. Dropping from the submitted form every pair whose
  key is not a column of the table changes nothing in the answer of either handler.
\<close>

theorem form_entries_outside_schema_ignored:
  "(table_insert env eng req table ds rows = (fl, resp, st, ds', rows') \<longrightarrow>
      fs_edited st \<union> dom (fs_errors st) \<union> dom (fs_values st)
        \<subseteq> col_name ` set (get_columns ds table))
   \<and> (table_update env eng table_pk req table pk ds rows = Inr (fl, resp, st, ds', rows') \<longrightarrow>
      fs_edited st \<union> dom (fs_errors st) \<union> dom (fs_values st)
        \<subseteq> col_name ` set (get_columns ds table))
   \<and> table_insert env eng
        (req\<lparr>req_form := filter (\<lambda>kv. fst kv \<in> col_name ` set (get_columns ds table)) (req_form req)\<rparr>)
        table ds rows
      = table_insert env eng req table ds rows
   \<and> table_update env eng table_pk
        (req\<lparr>req_form := filter (\<lambda>kv. fst kv \<in> col_name ` set (get_columns ds table)) (req_form req)\<rparr>)
        table pk ds rows
      = table_update env eng table_pk req table pk ds rows"
proof (intro conjI impI)
  assume "table_insert env eng req table ds rows = (fl, resp, st, ds', rows')"
  then show "fs_edited st \<union> dom (fs_errors st) \<union> dom (fs_values st)
        \<subseteq> col_name ` set (get_columns ds table)"
    by (rule table_insert_touched)
next
  assume "table_update env eng table_pk req table pk ds rows = Inr (fl, resp, st, ds', rows')"
  then show "fs_edited st \<union> dom (fs_errors st) \<union> dom (fs_values st)
        \<subseteq> col_name ` set (get_columns ds table)"
    by (rule table_update_touched)
next
  show "table_insert env eng
        (req\<lparr>req_form := filter (\<lambda>kv. fst kv \<in> col_name ` set (get_columns ds table)) (req_form req)\<rparr>)
        table ds rows
      = table_insert env eng req table ds rows"
    by (rule table_insert_ignores_unknown)
next
  show "table_update env eng table_pk
        (req\<lparr>req_form := filter (\<lambda>kv. fst kv \<in> col_name ` set (get_columns ds table)) (req_form req)\<rparr>)
        table pk ds rows
      = table_update env eng table_pk req table pk ds rows"
    by (rule table_update_ignores_unknown)
qed

lemma example_columns: "col_name ` set (get_columns example_dataset ''t'') = {''a'', ''b''}"
  by (auto simp: get_columns_def example_dataset_def example_schema_def)

lemma extra_key_filtered:
  "extra_key_request\<lparr>req_form := filter (\<lambda>kv. fst kv \<in> col_name ` set (get_columns example_dataset ''t''))
      (req_form extra_key_request)\<rparr> = known_key_request"
  unfolding example_columns
  by (simp add: extra_key_request_def known_key_request_def post_request_def)

lemma example_text_ok:
  "minimal_validate_field reference_adapters
     (field_of reference_adapters (last (tbl_columns example_schema))) ''new''
   = (PyStr ''new'', None)"
  by (simp add: minimal_validate_field_def reference_adapters_def reference_field_of_def
      example_schema_def py_strip_def py_lower_def py_lower_char_def py_isspace_def
      upper_case_def lower_case_def is_integer_field_def)

lemma example_update_columns:
  "update_columns (key_row ''k1'' ''old'') (get_columns example_dataset ''t'') (Map.empty, Map.empty)
     = Inr ([''a'' \<mapsto> PyStr ''k1'', ''b'' \<mapsto> PyStr ''old''],
            [''a'' \<mapsto> hd (tbl_columns example_schema), ''b'' \<mapsto> last (tbl_columns example_schema)])"
  by (simp add: get_columns_def example_dataset_def example_schema_def key_row_def
      py_lower_def py_lower_char_def upper_case_def lower_case_def)

lemma example_update_loop:
  "form_loop reference_adapters
     [''a'' \<mapsto> hd (tbl_columns example_schema), ''b'' \<mapsto> last (tbl_columns example_schema)]
     (md_items (req_form update_request)) st
   = st\<lparr>fs_edited := insert ''b'' (fs_edited st), fs_row := (fs_row st)(''b'' \<mapsto> PyStr ''new''),
        fs_values := (fs_values st)(''b'' \<mapsto> PyStr ''new'')\<rparr>"
  by (simp add: update_request_def post_request_def form_loop_def form_entry_def example_text_ok
      Let_def)
     (simp add: example_schema_def)

lemma example_update:
  "table_update reference_adapters reference_engine (SingleKey ''a'') update_request ''t'' ''k1''
     example_dataset [key_row ''k1'' ''old'']
   = Inr ([(''Successfully updated 1 record.'', ''success'')], Redirect ''table_content'',
          empty_form_state\<lparr>fs_edited := {''b''},
            fs_row := [''a'' \<mapsto> PyStr ''k1'', ''b'' \<mapsto> PyStr ''new''],
            fs_values := [''b'' \<mapsto> PyStr ''new'']\<rparr>,
          example_dataset, [key_row ''k1'' ''new''])"
proof -
  have tbl: "''t'' \<in> dom (ds_database example_dataset)"
    and cache: "update_cache ''t'' example_dataset = example_dataset"
    by (simp_all add: example_dataset_def update_cache_def)
  have get: "model_get reference_engine (Eq ''a'' ''k1'') [key_row ''k1'' ''old'']
      = Some (key_row ''k1'' ''old'')"
    by (simp add: reference_engine_def reference_equal_def key_row_def)
  have exec: "execute_update reference_engine [''b'' \<mapsto> PyStr ''new''] (Eq ''a'' ''k1'')
       [key_row ''k1'' ''old''] = Inr (PyInt 1, [key_row ''k1'' ''new''])"
    by (auto simp: reference_engine_def reference_equal_def key_row_def fun_eq_iff map_add_def)
  have post: "req_method update_request = POST"
    by (simp add: update_request_def post_request_def)
  show ?thesis
    using tbl
    by (simp add: table_update_def table_update_body_def cache decode_pk_def get
        example_update_columns example_update_loop post empty_form_state_def exec str_of_int_def)
qed

theorem form_entries_outside_schema_ignored_witness:
  "fs_edited (fst (snd (snd (table_insert reference_adapters reference_engine extra_key_request ''t''
       example_dataset []))))
   \<union> dom (fs_errors (fst (snd (snd (table_insert reference_adapters reference_engine
       extra_key_request ''t'' example_dataset [])))))
   \<union> dom (fs_values (fst (snd (snd (table_insert reference_adapters reference_engine
       extra_key_request ''t'' example_dataset [])))))
     \<subseteq> {''a'', ''b''}
   \<and> table_insert reference_adapters reference_engine known_key_request ''t'' example_dataset []
       = table_insert reference_adapters reference_engine extra_key_request ''t'' example_dataset []
   \<and> table_update reference_adapters reference_engine (SingleKey ''a'') update_request ''t'' ''k1''
        example_dataset [key_row ''k1'' ''old'']
       = Inr ([(''Successfully updated 1 record.'', ''success'')], Redirect ''table_content'',
          empty_form_state\<lparr>fs_edited := {''b''},
            fs_row := [''a'' \<mapsto> PyStr ''k1'', ''b'' \<mapsto> PyStr ''new''],
            fs_values := [''b'' \<mapsto> PyStr ''new'']\<rparr>,
          example_dataset, [key_row ''k1'' ''new''])
   \<and> {''b''} \<subseteq> col_name ` set (get_columns example_dataset ''t'')"
proof -
  let ?X = "table_insert reference_adapters reference_engine extra_key_request ''t''
       example_dataset []"
  let ?st = "empty_form_state\<lparr>fs_edited := {''b''},
            fs_row := [''a'' \<mapsto> PyStr ''k1'', ''b'' \<mapsto> PyStr ''new''],
            fs_values := [''b'' \<mapsto> PyStr ''new'']\<rparr>"
  have X: "?X = (fst ?X, fst (snd ?X), fst (snd (snd ?X)), fst (snd (snd (snd ?X))),
      snd (snd (snd (snd ?X))))"
    by simp
  note th = form_entries_outside_schema_ignored [where env = reference_adapters
      and eng = reference_engine and table = "''t''" and ds = example_dataset]
  have "fs_edited (fst (snd (snd ?X))) \<union> dom (fs_errors (fst (snd (snd ?X))))
      \<union> dom (fs_values (fst (snd (snd ?X)))) \<subseteq> col_name ` set (get_columns example_dataset ''t'')"
    using th [where req = extra_key_request and rows = "[]" and fl = "fst ?X"
        and resp = "fst (snd ?X)" and st = "fst (snd (snd ?X))"
        and ds' = "fst (snd (snd (snd ?X)))" and rows' = "snd (snd (snd (snd ?X)))",
        THEN conjunct1] X
    by blast
  then have one: "fs_edited (fst (snd (snd ?X))) \<union> dom (fs_errors (fst (snd (snd ?X))))
      \<union> dom (fs_values (fst (snd (snd ?X)))) \<subseteq> {''a'', ''b''}"
    unfolding example_columns .
  have two: "table_insert reference_adapters reference_engine known_key_request ''t''
       example_dataset [] = ?X"
    using th [where req = extra_key_request and rows = "[]", THEN conjunct2, THEN conjunct2,
        THEN conjunct1]
    unfolding extra_key_filtered .
  have "fs_edited ?st \<union> dom (fs_errors ?st) \<union> dom (fs_values ?st)
      \<subseteq> col_name ` set (get_columns example_dataset ''t'')"
    using th [where req = update_request and rows = "[key_row ''k1'' ''old'']"
        and table_pk = "SingleKey ''a''" and pk = "''k1''"
        and fl = "[(''Successfully updated 1 record.'', ''success'')]"
        and resp = "Redirect ''table_content''" and st = ?st
        and ds' = example_dataset and rows' = "[key_row ''k1'' ''new'']",
        THEN conjunct2, THEN conjunct1] example_update
    by blast
  then have three: "{''b''} \<subseteq> col_name ` set (get_columns example_dataset ''t'')"
    by (simp add: empty_form_state_def)
  show ?thesis
    using one two example_update three by (intro conjI)
qed

subsection \<open>Blob columns\<close>

lemma index_of_None: "index_of x xs = None \<longleftrightarrow> x \<notin> set xs"
  by (induction xs) (auto split: option.splits)

lemma index_of_nth:
  "distinct xs \<Longrightarrow> i < length xs \<Longrightarrow> index_of (xs ! i) xs = Some i"
proof (induction xs arbitrary: i)
  case Nil
  then show ?case by simp
next
  case (Cons a xs)
  show ?case
  proof (cases i)
    case 0
    then show ?thesis by simp
  next
    case (Suc j)
    with Cons.prems have "j < length xs" and "xs ! j \<noteq> a" and "distinct xs"
      by auto
    with Cons.IH [of j] Suc show ?thesis by simp
  qed
qed

lemma a2b_base64_discards:
  "a2b_base64 quad_pos leftchar pads out (filter b64_significant s)
     = a2b_base64 quad_pos leftchar pads out s"
proof (induction s arbitrary: quad_pos leftchar pads out)
  case Nil
  show ?case by simp
next
  case (Cons c s)
  show ?case
  proof (cases "b64_significant c")
    case True
    then show ?thesis
      by (simp add: Cons.IH split: option.splits)
  next
    case False
    then have "c \<noteq> CHR ''=''" and "b64_value c = None"
      by (simp_all add: b64_significant_def b64_value_def index_of_None)
    with False show ?thesis
      by (simp add: Cons.IH)
  qed
qed

lemma is_ascii_filter: "is_ascii s \<Longrightarrow> is_ascii (filter P s)"
  by (induction s) (auto simp: is_ascii_def)

lemma b64decode_discards:
  "is_ascii raw \<Longrightarrow> b64decode (filter b64_significant raw) = b64decode raw"
  by (simp add: b64decode_def is_ascii_filter a2b_base64_discards)

lemma b64_alphabet_distinct: "distinct b64_alphabet \<and> length b64_alphabet = 64"
  by (simp add: b64_alphabet_def)

lemma b64_value_nth: "v < 64 \<Longrightarrow> b64_value (b64_alphabet ! v) = Some v"
  unfolding b64_value_def using b64_alphabet_distinct by (simp add: index_of_nth)

lemma b64_alphabet_no_pad: "CHR ''='' \<notin> set b64_alphabet"
  by (simp add: b64_alphabet_def)

lemma b64_nth_not_pad: "v < 64 \<Longrightarrow> b64_alphabet ! v \<noteq> CHR ''=''"
  using b64_alphabet_no_pad b64_alphabet_distinct by (metis nth_mem)

lemma a2b_base64_quad:
  assumes "v1 < 64" and "v2 < 64" and "v3 < 64" and "v4 < 64"
  shows "a2b_base64 0 l p out
           (b64_alphabet ! v1 # b64_alphabet ! v2 # b64_alphabet ! v3 # b64_alphabet ! v4 # rest)
         = a2b_base64 0 0 0
             (out @ [char_of (v1 * 4 + v2 div 16), char_of (v2 mod 16 * 16 + v3 div 4),
                     char_of (v3 mod 4 * 64 + v4)]) rest"
  using assms by (simp add: b64_value_nth b64_nth_not_pad)

lemma a2b_base64_pad2:
  assumes "v1 < 64" and "v2 < 64"
  shows "a2b_base64 0 l p out [b64_alphabet ! v1, b64_alphabet ! v2, CHR ''='', CHR ''='']
         = Inr (out @ [char_of (v1 * 4 + v2 div 16)])"
  using assms by (simp add: b64_value_nth b64_nth_not_pad)

lemma a2b_base64_pad1:
  assumes "v1 < 64" and "v2 < 64" and "v3 < 64"
  shows "a2b_base64 0 l p out [b64_alphabet ! v1, b64_alphabet ! v2, b64_alphabet ! v3, CHR ''='']
         = Inr (out @ [char_of (v1 * 4 + v2 div 16), char_of (v2 mod 16 * 16 + v3 div 4)])"
  using assms by (simp add: b64_value_nth b64_nth_not_pad)

lemma of_char_bound: "(of_char c :: nat) < 256"
proof -
  have "(of_char c :: nat) mod 256 = of_char c"
    by (rule of_char_mod_256)
  moreover have "(of_char c :: nat) mod 256 < 256"
    by simp
  ultimately show ?thesis by simp
qed

lemma sextet_bounds:
  fixes x y z :: nat
  assumes "x < 256" and "y < 256" and "z < 256"
  shows "x div 4 < 64" and "x mod 4 * 16 + y div 16 < 64" and "y mod 16 * 4 + z div 64 < 64"
    and "z mod 64 < 64" and "x mod 4 * 16 < 64" and "y mod 16 * 4 < 64"
proof -
  have a: "x mod 4 < 4" "y mod 16 < 16" "y div 16 < 16" "z div 64 < 4"
    using assms by (simp_all add: less_mult_imp_div_less)
  show "x div 4 < 64" using assms by (simp add: less_mult_imp_div_less)
  show "x mod 4 * 16 + y div 16 < 64" using a by linarith
  show "y mod 16 * 4 + z div 64 < 64" using a by linarith
  show "z mod 64 < 64" by simp
  show "x mod 4 * 16 < 64" using a by linarith
  show "y mod 16 * 4 < 64" using a by linarith
qed

lemma first_byte:
  fixes x y :: nat
  assumes "y < 256"
  shows "x div 4 * 4 + (x mod 4 * 16 + y div 16) div 16 = x"
proof -
  have "y div 16 < 16" using assms by (simp add: less_mult_imp_div_less)
  then have "(x mod 4 * 16 + y div 16) div 16 = x mod 4" by simp
  then show ?thesis by simp
qed

lemma second_byte:
  fixes x y z :: nat
  assumes "y < 256" and "z < 256"
  shows "(x mod 4 * 16 + y div 16) mod 16 * 16 + (y mod 16 * 4 + z div 64) div 4 = y"
proof -
  have "y div 16 < 16" and "z div 64 < 4"
    using assms by (simp_all add: less_mult_imp_div_less)
  then have "(x mod 4 * 16 + y div 16) mod 16 = y div 16"
    and "(y mod 16 * 4 + z div 64) div 4 = y mod 16"
    by simp_all
  then show ?thesis by simp
qed

lemma third_byte:
  fixes y z :: nat
  assumes "z < 256"
  shows "(y mod 16 * 4 + z div 64) mod 4 * 64 + z mod 64 = z"
proof -
  have "z div 64 < 4" using assms by (simp add: less_mult_imp_div_less)
  then have "(y mod 16 * 4 + z div 64) mod 4 = z div 64" by simp
  then show ?thesis by simp
qed

lemma second_byte_padded:
  fixes x y :: nat
  assumes "y < 256"
  shows "(x mod 4 * 16 + y div 16) mod 16 * 16 + (y mod 16 * 4) div 4 = y"
proof -
  have "y div 16 < 16"
    using assms by (simp add: less_mult_imp_div_less)
  then have "(x mod 4 * 16 + y div 16) mod 16 = y div 16"
    by simp
  then show ?thesis by simp
qed

lemma a2b_base64_encode:
  "a2b_base64 0 l p out (b64encode bs) = Inr (out @ bs)"
proof (induction bs arbitrary: l p out rule: b64encode.induct)
  case 1
  show ?case by simp
next
  case (2 a)
  let ?x = "of_char a :: nat"
  have x: "?x < 256" by (rule of_char_bound)
  have "a2b_base64 0 l p out [b64_alphabet ! (?x div 4), b64_alphabet ! (?x mod 4 * 16),
          CHR ''='', CHR ''='']
        = Inr (out @ [char_of (?x div 4 * 4 + (?x mod 4 * 16) div 16)])"
    using sextet_bounds(1,5) [OF x x x] by (rule a2b_base64_pad2)
  moreover have "?x div 4 * 4 + (?x mod 4 * 16) div 16 = ?x"
    by simp
  ultimately show ?case
    by (simp add: Let_def)
next
  case (3 a b)
  let ?x = "of_char a :: nat" and ?y = "of_char b :: nat"
  have x: "?x < 256" and y: "?y < 256" by (rule of_char_bound)+
  have "a2b_base64 0 l p out [b64_alphabet ! (?x div 4), b64_alphabet ! (?x mod 4 * 16 + ?y div 16),
          b64_alphabet ! (?y mod 16 * 4), CHR ''='']
        = Inr (out @ [char_of (?x div 4 * 4 + (?x mod 4 * 16 + ?y div 16) div 16),
                      char_of ((?x mod 4 * 16 + ?y div 16) mod 16 * 16 + (?y mod 16 * 4) div 4)])"
    using sextet_bounds(1,2,6) [OF x y y] by (rule a2b_base64_pad1)
  moreover have "?x div 4 * 4 + (?x mod 4 * 16 + ?y div 16) div 16 = ?x"
    using y by (rule first_byte)
  moreover have "(?x mod 4 * 16 + ?y div 16) mod 16 * 16 + (?y mod 16 * 4) div 4 = ?y"
    using y by (rule second_byte_padded)
  ultimately show ?case
    by (simp add: Let_def)
next
  case (4 a b c rest)
  let ?x = "of_char a :: nat" and ?y = "of_char b :: nat" and ?z = "of_char c :: nat"
  have x: "?x < 256" and y: "?y < 256" and z: "?z < 256" by (rule of_char_bound)+
  have "a2b_base64 0 l p out
          (b64_alphabet ! (?x div 4) # b64_alphabet ! (?x mod 4 * 16 + ?y div 16)
             # b64_alphabet ! (?y mod 16 * 4 + ?z div 64) # b64_alphabet ! (?z mod 64)
             # b64encode rest)
        = a2b_base64 0 0 0
            (out @ [char_of (?x div 4 * 4 + (?x mod 4 * 16 + ?y div 16) div 16),
                    char_of ((?x mod 4 * 16 + ?y div 16) mod 16 * 16 + (?y mod 16 * 4 + ?z div 64) div 4),
                    char_of ((?y mod 16 * 4 + ?z div 64) mod 4 * 64 + ?z mod 64)])
            (b64encode rest)"
    using sextet_bounds(1,2,3,4) [OF x y z] by (rule a2b_base64_quad)
  moreover have "?x div 4 * 4 + (?x mod 4 * 16 + ?y div 16) div 16 = ?x"
    using y by (rule first_byte)
  moreover have "(?x mod 4 * 16 + ?y div 16) mod 16 * 16 + (?y mod 16 * 4 + ?z div 64) div 4 = ?y"
    using y z by (rule second_byte)
  moreover have "(?y mod 16 * 4 + ?z div 64) mod 4 * 64 + ?z mod 64 = ?z"
    using z by (rule third_byte)
  ultimately show ?case
    by (simp add: Let_def "4.IH")
qed

lemma b64_alphabet_ascii: "list_all (\<lambda>c. (of_char c :: nat) < 128) b64_alphabet"
  by (simp add: b64_alphabet_def)

lemma b64_nth_ascii: "v < 64 \<Longrightarrow> (of_char (b64_alphabet ! v) :: nat) < 128"
  using b64_alphabet_ascii b64_alphabet_distinct by (simp add: list_all_length)

lemma b64encode_ascii: "is_ascii (b64encode bs)"
proof (induction bs rule: b64encode.induct)
  case 1
  show ?case by (simp add: is_ascii_def)
next
  case (2 a)
  show ?case
    using sextet_bounds(1,5) [OF of_char_bound [of a] of_char_bound [of a] of_char_bound [of a]]
    by (simp add: is_ascii_def Let_def b64_nth_ascii)
next
  case (3 a b)
  show ?case
    using sextet_bounds(1,2,6) [OF of_char_bound [of a] of_char_bound [of b] of_char_bound [of b]]
    by (simp add: is_ascii_def Let_def b64_nth_ascii)
next
  case (4 a b c rest)
  then show ?case
    using sextet_bounds(1,2,3,4) [OF of_char_bound [of a] of_char_bound [of b] of_char_bound [of c]]
    by (simp add: is_ascii_def Let_def b64_nth_ascii)
qed

lemma b64decode_b64encode: "b64decode (b64encode bs) = Inr bs"
  using a2b_base64_encode [of 0 0 "[]" bs] by (simp add: b64decode_def b64encode_ascii)

lemma blob_field_result:
  assumes "fld_class field = BlobField" and "py_strip (py_lower raw) \<noteq> ''null''"
    and "b64decode_call env = b64decode" and "\<And>bs. db_value env field (PyBytes bs) = Inr ()"
  shows "minimal_validate_field env field raw =
     (case b64decode raw of
        Inl e \<Rightarrow> (PyStr raw, Some ''Value must be base64-encoded binary data.'')
      | Inr bs \<Rightarrow> (PyBytes bs, None))"
  using assms
  by (simp add: minimal_validate_field_def is_integer_field_def split: sum.splits)

text \<open>
  C9, as the claim states it, fails: \<^verbatim>\<open>YWJj!!\<close> is not valid base64, and a blob column
  decodes it to the bytes \<^verbatim>\<open>abc\<close> without error, because the decoder skips the two
  exclamation marks.
\<close>

theorem blob_accepts_non_base64:
  "\<not> valid_base64 ''YWJj!!''
   \<and> minimal_validate_field reference_adapters blob_field ''YWJj!!'' = (PyBytes ''abc'', None)"
proof -
  have "b64decode ''YWJj!!'' = Inr ''abc''"
    by (simp add: b64decode_def is_ascii_def b64_value_def b64_alphabet_def char_of_def
        bit_Suc_0_iff)
  moreover have "py_strip (py_lower ''YWJj!!'') \<noteq> ''null''"
    by (simp add: py_strip_def py_lower_def py_lower_char_def py_isspace_def upper_case_def
        lower_case_def)
  ultimately have "minimal_validate_field reference_adapters blob_field ''YWJj!!''
      = (PyBytes ''abc'', None)"
    by (simp add: blob_field_result blob_field_def reference_adapters_def)
  moreover have "\<not> valid_base64 ''YWJj!!''"
    by (simp add: valid_base64_def b64_alphabet_def)
  ultimately show ?thesis by simp
qed

text \<open>
  C9, amended. For a blob column whose adapter accepts bytes and raw text that is not the
  null literal, the codec succeeds exactly when \<^verbatim>\<open>base64.b64decode\<close> in its default,
  non-validating mode returns, and then gives the decoded bytes; otherwise it returns the
  base64 message. That decoder rejects text with a character above 127, and on ASCII text
  it gives what it gives for the text without the characters outside the alphabet and the
  padding sign. Every base64 encoding of a byte string is decoded to that byte string.
\<close>

theorem blob_decode_lenient:
  assumes "fld_class field = BlobField" and "py_strip (py_lower raw) \<noteq> ''null''"
    and "b64decode_call env = b64decode" and "\<forall>bs. db_value env field (PyBytes bs) = Inr ()"
  shows "minimal_validate_field env field raw =
           (case b64decode raw of
              Inl e \<Rightarrow> (PyStr raw, Some ''Value must be base64-encoded binary data.'')
            | Inr bs \<Rightarrow> (PyBytes bs, None))
         \<and> (is_ascii raw \<longrightarrow> b64decode raw = b64decode (filter b64_significant raw))
         \<and> (\<not> is_ascii raw \<longrightarrow> (\<exists>e. b64decode raw = Inl e))
         \<and> (raw = b64encode bs \<longrightarrow> minimal_validate_field env field raw = (PyBytes bs, None))"
proof -
  have res: "minimal_validate_field env field raw =
           (case b64decode raw of
              Inl e \<Rightarrow> (PyStr raw, Some ''Value must be base64-encoded binary data.'')
            | Inr bs \<Rightarrow> (PyBytes bs, None))"
    using assms by (intro blob_field_result) auto
  moreover have "b64decode raw = b64decode (filter b64_significant raw)" if "is_ascii raw"
    using that by (simp add: b64decode_discards)
  moreover have "\<exists>e. b64decode raw = Inl e" if "\<not> is_ascii raw"
    using that by (simp add: b64decode_def)
  moreover have "minimal_validate_field env field raw = (PyBytes bs, None)" if "raw = b64encode bs"
    using res that by (simp add: b64decode_b64encode)
  ultimately show ?thesis by blast
qed

theorem blob_decode_lenient_witness:
  "b64encode ''abc'' = ''YWJj''
   \<and> minimal_validate_field reference_adapters blob_field ''YWJj'' = (PyBytes ''abc'', None)
   \<and> minimal_validate_field reference_adapters blob_field ''not-base64!!''
       = (PyStr ''not-base64!!'', Some ''Value must be base64-encoded binary data.'')
   \<and> b64decode ''YW Jj'' = b64decode ''YWJj''"
proof -
  have cls: "fld_class blob_field = BlobField"
    by (simp add: blob_field_def)
  have call: "b64decode_call reference_adapters = b64decode"
    and adapter: "\<forall>bs. db_value reference_adapters blob_field (PyBytes bs) = Inr ()"
    by (simp_all add: reference_adapters_def)
  have enc: "''YWJj'' = b64encode ''abc''"
    by (simp add: b64_alphabet_def)
  have n1: "py_strip (py_lower ''YWJj'') \<noteq> ''null''"
    and n2: "py_strip (py_lower ''not-base64!!'') \<noteq> ''null''"
    by (simp_all add: py_strip_def py_lower_def py_lower_char_def py_isspace_def upper_case_def
        lower_case_def)
  have one: "minimal_validate_field reference_adapters blob_field ''YWJj'' = (PyBytes ''abc'', None)"
    using blob_decode_lenient [OF cls n1 call adapter, of "''abc''"] enc by blast
  have bad: "\<exists>e. b64decode ''not-base64!!'' = Inl e"
    by (simp add: b64decode_def is_ascii_def b64_value_def b64_alphabet_def char_of_def
        bit_Suc_0_iff)
  have two: "minimal_validate_field reference_adapters blob_field ''not-base64!!''
       = (PyStr ''not-base64!!'', Some ''Value must be base64-encoded binary data.'')"
    using blob_decode_lenient [OF cls n2 call adapter, THEN conjunct1] bad by auto
  have n3: "py_strip (py_lower ''YW Jj'') \<noteq> ''null''"
    by (simp add: py_strip_def py_lower_def py_lower_char_def py_isspace_def upper_case_def
        lower_case_def)
  have asc: "is_ascii ''YW Jj''"
    by (simp add: is_ascii_def)
  have filt: "filter b64_significant ''YW Jj'' = ''YWJj''"
    by (simp add: b64_significant_def b64_alphabet_def)
  have three: "b64decode ''YW Jj'' = b64decode ''YWJj''"
    using blob_decode_lenient [OF cls n3 call adapter, THEN conjunct2, THEN conjunct1] asc filt
    by simp
  show ?thesis
    using enc one two three by simp
qed

end
